theory Spec2Isabelle
  imports Main "HOL-Library.Word" "HOL-Library.Sublist"
begin

unbundle bit_operations_syntax

section \<open>Shared data of the LDM-7 sources\<close>

text \<open>
  The model follows two translation units: \<^verbatim>\<open>mcast_lib/ldm7/up7.c\<close>, the upstream LDM-7
  that serves one downstream LDM-7 over its TCP connection, and
  \<^verbatim>\<open>mldm_sender/mldm_sender.c\<close>, the multicast sender program. Calls that leave a
  translation unit (the product-queue, the product-index map, RPC, child commands, the
  FMTP layer, logging) are recorded as events, in the order in which the code makes them;
  what such a call returns is read from an environment record.
\<close>

type_synonym feedtypet = "32 word"
type_synonym in_addr_t = "32 word"
type_synonym in_port_t = "16 word"
type_synonym FmtpProdIndex = "32 word"
type_synonym signaturet = "8 word list"

definition NONE :: feedtypet where
  "NONE = 0"

definition INADDR_ANY :: in_addr_t where
  "INADDR_ANY = 0"

text \<open>
  \<^verbatim>\<open>Ldm7Status\<close> is an enumeration of \<^verbatim>\<open>ldm.h\<close> whose first enumerator, \<^verbatim>\<open>LDM7_OK\<close>, is
  0; \<^verbatim>\<open>up7.c\<close> tests a status for zero and compares it with the named enumerators
  only. Where \<^verbatim>\<open>mldm_sender.c\<close> mixes the enumerators with other integers, the
  environment of that file gives their values.
\<close>

datatype Ldm7Status =
  LDM7_OK | LDM7_INVAL | LDM7_UNAUTH | LDM7_NOENT | LDM7_MCAST | LDM7_PQ
  | LDM7_SYSTEM | LDM7_LOGIC | LDM7_DUP

text \<open>
  \<^verbatim>\<open>timestampt\<close> is a \<^verbatim>\<open>struct timeval\<close>: whole seconds (\<^verbatim>\<open>time_t\<close>, a signed
  64-bit \<^verbatim>\<open>long\<close> on the LP64 platforms the package is built for) and microseconds.
  A signed field is kept as a word and read with \<^const>\<open>sint\<close>.
\<close>

record timestampt =
  tv_sec :: "64 word"
  tv_usec :: "64 word"

record prod_info =
  arrival :: timestampt
  signature :: signaturet
  prod_feedtype :: feedtypet
  ident :: string

record product =
  info :: prod_info
  data :: "8 word list"

record VcEndPoint =
  vlanId :: "16 word"
  switchId :: string
  portId :: string

record ServiceAddr =
  inetId :: string
  port :: in_port_t

record McastInfo =
  feed :: feedtypet
  group :: ServiceAddr
  server :: ServiceAddr

record CidrAddr =
  addr :: in_addr_t
  prefixLen :: nat

datatype log_level = LOG_DEBUG | LOG_INFO | LOG_NOTICE | LOG_WARNING | LOG_ERROR

subsection \<open>Decimal output of \<^verbatim>\<open>printf\<close>\<close>

definition digit_char :: "nat \<Rightarrow> char" where
  "digit_char d = ''0123456789'' ! d"

text \<open>The conversion \<^verbatim>\<open>%hu\<close>: the decimal digits of an unsigned value, no padding.\<close>

fun dec :: "nat \<Rightarrow> string" where
  "dec n = (if n < 10 then [digit_char n] else dec (n div 10) @ [digit_char (n mod 10)])"

declare dec.simps [simp del]

text \<open>
  \<^verbatim>\<open>strncmp(s, t, n) == 0\<close> on strings without an embedded NUL: the first \<open>n\<close>
  characters agree, or both strings end before that and are equal.
\<close>

definition strncmp_eq :: "string \<Rightarrow> string \<Rightarrow> nat \<Rightarrow> bool" where
  "strncmp_eq s t n = (take n s = take n t)"

section \<open>Events\<close>

text \<open>One-way messages to the downstream LDM-7.\<close>

datatype notification =
  MissedProduct FmtpProdIndex product
  | NoSuchProduct FmtpProdIndex
  | BacklogProduct product

text \<open>
  The calls that leave the two files, as events. An event with arguments records the
  call's arguments; \<open>Fmtp_getNextProdIndex\<close> records the index returned, and \<open>Printf\<close>
  the line and whether \<^verbatim>\<open>printf\<close> returned no negative value, that is, whether the line
  was written. Calls of which only the order matters are \<open>Call\<close> with the name of the
  function.
\<close>

datatype event =
  Log log_level string
  | LogAdd string
  | LogFlush log_level
  | Rootpriv
  | Unpriv
  | ChildCmd_execvp "string list"
  | ChildCmd_getline
  | ChildCmd_reap
  | Rpc notification
  | Umm_subscribe feedtypet
  | Umm_unsubscribe feedtypet in_addr_t
  | Pim_openForReading feedtypet
  | Pim_get FmtpProdIndex
  | Pim_close
  | Pq_open
  | Pq_processProduct signaturet
  | Pq_setCursorFromSignature signaturet
  | Pq_cset timestampt
  | Pq_sequence
  | Clnttcp_create
  | Clnt_destroy
  | Svcerr_systemerr
  | Fmtp_getNextProdIndex FmtpProdIndex
  | Om_put FmtpProdIndex "64 word"
  | Om_get FmtpProdIndex
  | Pim_put FmtpProdIndex signaturet
  | Fmtp_send FmtpProdIndex signaturet "8 word list"
  | Pq_release "64 word"
  | Pq_sequenceLock
  | Pq_suspendAndUnblock nat
  | BlockTermSigs
  | UnblockTermSigs
  | Printf string bool
  | Call string

section \<open>up7.c: the OESS submodule for AL2S virtual circuits\<close>

text \<open>
  What a child command does, as far as the caller sees it: whether
  \<^verbatim>\<open>childCmd_execvp\<close> returned a command (and \<^verbatim>\<open>errno\<close> if not), the bytes that
  \<^verbatim>\<open>childCmd_getline\<close> read (none when it returns 0 or less), the value of
  \<^verbatim>\<open>childCmd_reap\<close> and the exit status it stores.
\<close>

record child =
  exec_ok :: bool
  exec_errno :: int
  line_read :: string
  reap_status :: int
  exit_status :: int

definition python :: string where
  "python = ''python''"

definition newline :: char where
  "newline = CHR 0x0A"

definition isDummyEnd :: "VcEndPoint option \<Rightarrow> bool" where
  "isDummyEnd e = (case e of None \<Rightarrow> False
     | Some ep \<Rightarrow> strncmp_eq (switchId ep) ''dummy'' 5 \<or> strncmp_eq (portId ep) ''dummy'' 5)"

text \<open>
  \<^verbatim>\<open>oess_provision(wrkGrpName, desc, end1, end2, &circuitId)\<close>. A pointer argument that
  may be \<^verbatim>\<open>NULL\<close> is an option; the result is the status, the string stored through
  \<^verbatim>\<open>circuitId\<close> (\<open>None\<close> when nothing is stored) and the events.
\<close>

definition oess_provision ::
  "child \<Rightarrow> string option \<Rightarrow> string option \<Rightarrow> VcEndPoint option \<Rightarrow> VcEndPoint option
     \<Rightarrow> Ldm7Status \<times> string option \<times> event list" where
  "oess_provision ch wrkGrp desc end1 end2 =
     (if isDummyEnd end1 \<or> isDummyEnd end2 then
        (LDM7_OK, Some ''dummy_circuitId'',
         [Log LOG_NOTICE ''Ignoring call to create a dummy AL2S virtual-circuit''])
      else case (wrkGrp, desc, end1, end2) of
        (Some w, Some d, Some e1, Some e2) \<Rightarrow>
          (let cmdVec = [python, ''provision.py'', w,
                 switchId e1, portId e1, dec (unat (vlanId e1)),
                 switchId e2, portId e2, dec (unat (vlanId e2))];
               spawn = [Rootpriv, ChildCmd_execvp cmdVec, Unpriv];
               failed = [LogAdd ''Could not create AL2S virtual-circuit'']
           in if \<not> exec_ok ch then (LDM7_SYSTEM, None, spawn @ failed)
              else
                (let nbytes = length (line_read ch);
                     noId = (nbytes = 0);
                     line = (if noId then []
                             else if last (line_read ch) = newline then butlast (line_read ch)
                             else line_read ch);
                     got = [ChildCmd_getline]
                        @ (if noId then [LogAdd ''Could not get AL2S virtual-circuit ID''] else [])
                        @ [ChildCmd_reap]
                 in if reap_status ch \<noteq> 0 then (LDM7_SYSTEM, None, spawn @ got @ failed)
                    else if exit_status ch \<noteq> 0 then
                      (LDM7_SYSTEM, None,
                       spawn @ got @ [LogAdd ''OESS provisioning process terminated''] @ failed)
                    else if noId then (LDM7_SYSTEM, None, spawn @ got @ failed)
                    else (LDM7_OK, Some line, spawn @ got)))
      | _ \<Rightarrow> (LDM7_INVAL, None, [LogAdd ''NULL argument'']))"

text \<open>
  \<^verbatim>\<open>oess_remove(wrkGrpName, circuitId)\<close>. A \<^verbatim>\<open>NULL\<close> work-group name ends the argument
  vector where it stands.
\<close>

definition oess_remove :: "child \<Rightarrow> string option \<Rightarrow> string \<Rightarrow> event list" where
  "oess_remove ch wrkGrp cid =
     (if strncmp_eq cid ''dummy'' 5 then
        [Log LOG_NOTICE ''Ignoring call to remove a dummy AL2S virtual-circuit'']
      else
        (let cmdVec = [python, ''remove.py''] @ (case wrkGrp of None \<Rightarrow> [] | Some w \<Rightarrow> [w, cid]);
             failed = [LogAdd ''Could not destroy AL2S virtual-circuit'', LogFlush LOG_ERROR]
         in if \<not> exec_ok ch then
              [ChildCmd_execvp cmdVec] @ (if exec_errno ch \<noteq> 0 then failed else [])
            else
              [ChildCmd_execvp cmdVec, ChildCmd_reap]
              @ (if reap_status ch = 0 \<and> exit_status ch \<noteq> 0
                 then [LogAdd ''Child-process terminated''] else [])
              @ (if reap_status ch \<noteq> 0 then failed else [])))"

definition spawns :: "event list \<Rightarrow> string list list" where
  "spawns tr = [argv. ChildCmd_execvp argv \<leftarrow> tr]"

section \<open>up7.c: positioning the product-queue cursor from a time offset\<close>

text \<open>
  \<^verbatim>\<open>up7_setCursorFromTimeOffset(const unsigned offset)\<close>:
  \<^verbatim>\<open>ts.tv_sec = (offset < ts.tv_sec) ? (ts.tv_sec - offset) : 0;\<close>
  The operand \<^verbatim>\<open>offset\<close> is an \<^verbatim>\<open>unsigned\<close> (32 bits); in both the comparison and the
  subtraction the usual arithmetic conversions take it to \<^verbatim>\<open>long\<close>, which holds every
  \<^verbatim>\<open>unsigned\<close> value, so the comparison is a signed one. The first argument is the
  time that \<^verbatim>\<open>set_timestamp\<close> stored; the result is the time given to \<^verbatim>\<open>pq_cset\<close>.
\<close>

definition cursorTimeFromOffset :: "timestampt \<Rightarrow> 32 word \<Rightarrow> timestampt" where
  "cursorTimeFromOffset ts offset =
     ts\<lparr>tv_sec := (if uint offset < sint (tv_sec ts)
                    then tv_sec ts - (ucast offset :: 64 word) else 0)\<rparr>"

section \<open>up7.c: the upstream LDM-7 module\<close>

subsection \<open>The product-queue and the product-index map\<close>

text \<open>
  Modelled from the spec: the product-queue (\<^verbatim>\<open>pq.c\<close> is not among the sources at hand),
  which the specification describes as an append-only, time-indexed store with an opaque
  iterator and a lookup by signature. The queue is the list of its products in store
  order with a cursor, the position of the product the next \<^verbatim>\<open>pq_sequence\<close> visits.
  \<open>io_error\<close> stands for a queue whose file cannot be read: every operation on it
  reports an error of the store.
\<close>

record pqueue =
  prods :: "product list"
  cursor :: nat
  io_error :: bool

datatype pq_lookup = PQ_FOUND product | PQ_NOTFOUND | PQ_SYSERR

text \<open>
  Modelled from the spec: \<^verbatim>\<open>pq_processProduct\<close> finds a product by its signature and
  hands it to the caller's function.
\<close>

definition pq_processProduct :: "pqueue \<Rightarrow> signaturet \<Rightarrow> pq_lookup" where
  "pq_processProduct q sig =
     (if io_error q then PQ_SYSERR
      else case find (\<lambda>p. signature (info p) = sig) (prods q) of
             None \<Rightarrow> PQ_NOTFOUND
           | Some p \<Rightarrow> PQ_FOUND p)"

text \<open>
  Modelled from the spec: \<^verbatim>\<open>pq_setCursorFromSignature\<close> puts the cursor at the product
  immediately after the one with the given signature. The result is the status and the
  queue.
\<close>

datatype pq_status = PQ_OK | PQ_NOTFOUND_STATUS | PQ_ERROR

definition pq_setCursorFromSignature :: "pqueue \<Rightarrow> signaturet \<Rightarrow> pq_status \<times> pqueue" where
  "pq_setCursorFromSignature q sig =
     (if io_error q then (PQ_ERROR, q)
      else if sig \<in> set (map (\<lambda>p. signature (info p)) (prods q)) then
        (PQ_OK, q\<lparr>cursor := Suc (length (takeWhile (\<lambda>p. signature (info p) \<noteq> sig) (prods q)))\<rparr>)
      else (PQ_NOTFOUND_STATUS, q))"

definition ts_less :: "timestampt \<Rightarrow> timestampt \<Rightarrow> bool" where
  "ts_less a b = (sint (tv_sec a) < sint (tv_sec b)
     \<or> (tv_sec a = tv_sec b \<and> sint (tv_usec a) < sint (tv_usec b)))"

text \<open>
  Modelled from the spec: \<^verbatim>\<open>pq_cset\<close> puts the cursor at the first product that is no
  older than the given time.
\<close>

definition pq_cset :: "pqueue \<Rightarrow> timestampt \<Rightarrow> pqueue" where
  "pq_cset q ts =
     q\<lparr>cursor := length (takeWhile (\<lambda>p. ts_less (arrival (info p)) ts) (prods q))\<rparr>"

text \<open>
  Modelled from the spec: a product matches a subscription when its feed is a subset of
  the granted feed.
\<close>

definition prodInClass :: "feedtypet \<Rightarrow> prod_info \<Rightarrow> bool" where
  "prodInClass ft i = (prod_feedtype i AND NOT ft = 0)"

text \<open>
  Modelled from the spec: one step of the iterator. \<^verbatim>\<open>pq_sequence\<close> moves the cursor
  over one product and calls the caller's function on it if the product is in the class;
  a product outside the class is passed over with status 0; at the end of the queue the
  status is \<^verbatim>\<open>PQUEUE_END\<close>.
\<close>

datatype pq_step = SEQ_END | SEQ_ERROR | SEQ_SKIPPED | SEQ_MATCH product

definition pq_sequence :: "pqueue \<Rightarrow> feedtypet \<Rightarrow> pq_step \<times> pqueue" where
  "pq_sequence q ft =
     (if io_error q then (SEQ_ERROR, q)
      else if cursor q < length (prods q) then
        (let p = prods q ! cursor q; q' = q\<lparr>cursor := Suc (cursor q)\<rparr>
         in if prodInClass ft (info p) then (SEQ_MATCH p, q') else (SEQ_SKIPPED, q'))
      else (SEQ_END, q))"

subsection \<open>State and environment\<close>

record SubscriptionInfo =
  mcastInfo :: McastInfo
  fmtpAddr :: CidrAddr

record SubscriptionReply =
  status :: Ldm7Status
  SubscriptionReply_u :: SubscriptionInfo

record McastSubReq =
  req_feed :: feedtypet
  vcEnd :: VcEndPoint

record BacklogSpec =
  afterIsSet :: bool
  after :: signaturet
  before :: signaturet
  timeOffset :: "32 word"

datatype clnt_stat = RPC_SUCCESS | RPC_CANTSEND | RPC_TIMEDOUT | RPC_FAILED

text \<open>
  The static variables of the file. \<^verbatim>\<open>clnt\<close> holds the socket of the client-side
  transport; \<^verbatim>\<open>pq\<close> is the global product-queue, \<open>None\<close> while it is not open;
  \<open>result\<close> and \<open>reply\<close> are the static variables of \<^verbatim>\<open>subscribe_7_svc\<close> (\<open>reply\<close>
  is either \<^verbatim>\<open>NULL\<close> or the address of \<open>result\<close>).
\<close>

record up7_state =
  isInitialized :: bool
  wrkGrpName :: "string option"
  localVcEndPoint :: "VcEndPoint option"
  circuitId :: "string option"
  clnt :: "int option"
  feedtype :: feedtypet
  downFmtpAddr :: in_addr_t
  pimIsOpen :: bool
  isDone :: bool
  pq :: "pqueue option"
  result :: SubscriptionReply
  reply :: bool

text \<open>
  What the calls that leave the file return. The product-index map is modelled from the
  spec as a finite map from product-index to signature (\<^verbatim>\<open>prod_index_map.c\<close> is not
  among the sources at hand), with \<open>pim_io_error\<close> for a map that cannot be read.
\<close>

record up7_env =
  time_now :: timestampt
  allowedFeeds :: "feedtypet list"
  description :: "feedtypet \<Rightarrow> string option"
  provision_child :: child
  remove_child :: child
  umm_subscribe :: "feedtypet \<Rightarrow> Ldm7Status \<times> SubscriptionReply"
  umm_unsubscribe :: "feedtypet \<Rightarrow> in_addr_t \<Rightarrow> Ldm7Status"
  pim_openForReading :: "feedtypet \<Rightarrow> Ldm7Status"
  pim_close :: Ldm7Status
  pim :: "FmtpProdIndex \<Rightarrow> signaturet option"
  pim_io_error :: bool
  stat_after :: "notification \<Rightarrow> clnt_stat"
  pq_open :: "pqueue option"
  atexit_ok :: bool
  clnttcp_create :: "int option"
  dup_prod_class_ok :: bool

text \<open>Modelled from the spec: \<^verbatim>\<open>pim_get\<close>, the lookup of a product-index.\<close>

definition pim_get :: "up7_env \<Rightarrow> FmtpProdIndex \<Rightarrow> Ldm7Status \<times> signaturet" where
  "pim_get env iProd =
     (if pim_io_error env then (LDM7_SYSTEM, [])
      else case pim env iProd of None \<Rightarrow> (LDM7_NOENT, []) | Some sig \<Rightarrow> (LDM7_OK, sig))"

text \<open>The static initialisers of the file.\<close>

definition up7_initial :: up7_state where
  "up7_initial =
     \<lparr>isInitialized = False, wrkGrpName = None, localVcEndPoint = None, circuitId = None,
      clnt = None, feedtype = NONE, downFmtpAddr = INADDR_ANY, pimIsOpen = False,
      isDone = False, pq = None,
      result = \<lparr>status = LDM7_OK,
                 SubscriptionReply_u = \<lparr>mcastInfo = \<lparr>feed = 0,
                     group = \<lparr>inetId = [], port = 0\<rparr>, server = \<lparr>inetId = [], port = 0\<rparr>\<rparr>,
                   fmtpAddr = \<lparr>addr = 0, prefixLen = 0\<rparr>\<rparr>\<rparr>,
      reply = False\<rparr>"

subsection \<open>Subscription\<close>

text \<open>\<^verbatim>\<open>releaseDownFmtpAddr()\<close>.\<close>

definition releaseDownFmtpAddr :: "up7_env \<Rightarrow> up7_state \<Rightarrow> up7_state \<times> event list" where
  "releaseDownFmtpAddr env s =
     (if feedtype s \<noteq> NONE \<and> downFmtpAddr s \<noteq> INADDR_ANY then
        (s\<lparr>downFmtpAddr := INADDR_ANY, feedtype := NONE\<rparr>,
         [Umm_unsubscribe (feedtype s) (downFmtpAddr s),
          if umm_unsubscribe env (feedtype s) (downFmtpAddr s) \<noteq> LDM7_OK
          then LogFlush LOG_ERROR else Log LOG_DEBUG ''Address released''])
      else (s, []))"

text \<open>
  \<^verbatim>\<open>up7_createVirtCirc(feed, remoteVcEndPoint)\<close>. \<open>description\<close> is the string
  that \<^verbatim>\<open>ldm_format\<close> builds from the feed, \<open>None\<close> when it cannot be allocated.
\<close>

definition up7_createVirtCirc ::
  "up7_env \<Rightarrow> up7_state \<Rightarrow> feedtypet \<Rightarrow> VcEndPoint option
     \<Rightarrow> Ldm7Status \<times> up7_state \<times> event list" where
  "up7_createVirtCirc env s fd remoteVcEndPoint =
     (case description env fd of
        None \<Rightarrow> (LDM7_SYSTEM, s,
                 [LogAdd ''Could not format description for AL2S virtual-circuit''])
      | Some desc \<Rightarrow>
          (case oess_provision (provision_child env) (wrkGrpName s) (Some desc)
                  (localVcEndPoint s) remoteVcEndPoint of
             (st, cid, ev) \<Rightarrow>
               if st \<noteq> LDM7_OK then
                 (st, s, ev @ [LogAdd ''Could not create AL2S virtual circuit for feed''])
               else (st, s\<lparr>circuitId := cid\<rparr>, ev)))"

text \<open>\<^verbatim>\<open>up7_destroyVirtCirc()\<close>.\<close>

definition up7_destroyVirtCirc :: "up7_env \<Rightarrow> up7_state \<Rightarrow> up7_state \<times> event list" where
  "up7_destroyVirtCirc env s =
     (case circuitId s of
        None \<Rightarrow> (s, [])
      | Some cid \<Rightarrow> (s\<lparr>circuitId := None\<rparr>, oess_remove (remove_child env) (wrkGrpName s) cid))"

text \<open>\<^verbatim>\<open>up7_openProdIndexMap(feed)\<close>.\<close>

definition up7_openProdIndexMap ::
  "up7_env \<Rightarrow> up7_state \<Rightarrow> feedtypet \<Rightarrow> Ldm7Status \<times> up7_state \<times> event list" where
  "up7_openProdIndexMap env s fd =
     (let st = pim_openForReading env fd
      in (st, if st = LDM7_OK then s\<lparr>pimIsOpen := True\<rparr> else s, [Pim_openForReading fd]))"

text \<open>\<^verbatim>\<open>up7_closeProdIndexMap()\<close>.\<close>

definition up7_closeProdIndexMap :: "up7_env \<Rightarrow> up7_state \<Rightarrow> up7_state \<times> event list" where
  "up7_closeProdIndexMap env s =
     (if pimIsOpen s then
        (if pim_close env \<noteq> LDM7_OK
         then (s, [Pim_close, Log LOG_ERROR ''Could not close product-index map''])
         else (s\<lparr>pimIsOpen := False\<rparr>, [Pim_close]))
      else (s, []))"

text \<open>\<^verbatim>\<open>up7_destroyClient()\<close>.\<close>

definition up7_destroyClient :: "up7_state \<Rightarrow> up7_state \<times> event list" where
  "up7_destroyClient s =
     (case clnt s of None \<Rightarrow> (s, []) | Some c \<Rightarrow> (s\<lparr>clnt := None\<rparr>, [Clnt_destroy]))"

text \<open>\<^verbatim>\<open>up7_isDone()\<close>.\<close>

definition up7_isDone :: "up7_state \<Rightarrow> bool" where
  "up7_isDone s = isDone s"

text \<open>
  \<^verbatim>\<open>up7_createClientTransport(xprt)\<close>. \<open>clnttcp_create\<close> is the new client, \<open>None\<close>
  when it cannot be created.
\<close>

definition up7_createClientTransport :: "up7_env \<Rightarrow> up7_state \<Rightarrow> bool \<times> up7_state \<times> event list" where
  "up7_createClientTransport env s =
     (case clnttcp_create env of
        None \<Rightarrow> (False, s,
                 [Clnttcp_create, LogAdd ''Could not create client-side transport''])
      | Some client \<Rightarrow>
          if \<not> atexit_ok env then
            (False, s, [Clnttcp_create,
                        LogAdd ''Could not register upstream LDM-7 cleanup function'',
                        Clnt_destroy])
          else (case up7_destroyClient s of
                  (s', ev) \<Rightarrow> (True, s'\<lparr>clnt := Some client\<rparr>, Clnttcp_create # ev)))"

text \<open>
  Modelled from the spec: \<^verbatim>\<open>lcf_reduceByFeeds\<close> intersects the requested feed with the
  feeds that the configuration allows the host.
\<close>

definition lcf_reduceByFeeds :: "feedtypet \<Rightarrow> feedtypet list \<Rightarrow> feedtypet" where
  "lcf_reduceByFeeds fd allowed = fold (\<lambda>a acc. acc OR (fd AND a)) allowed 0"

definition maxFeeds :: nat where
  "maxFeeds = 128"

text \<open>
  \<^verbatim>\<open>up7_reduceToAllowed(feed, hostId, inAddr)\<close>. \<open>allowedFeeds\<close> lists all the feeds
  that \<^verbatim>\<open>lcf_getAllowedFeeds\<close> finds for the host; its array holds the first
  \<open>maxFeeds\<close> of them.
\<close>

definition up7_reduceToAllowed :: "up7_env \<Rightarrow> feedtypet \<Rightarrow> feedtypet \<times> event list" where
  "up7_reduceToAllowed env fd =
     (let numFeeds = length (allowedFeeds env)
      in (lcf_reduceByFeeds fd (take (min numFeeds maxFeeds) (allowedFeeds env)),
          if numFeeds > maxFeeds then [Log LOG_ERROR ''numFeeds > maxFeeds''] else []))"

definition cidrAddr_getAddr :: "CidrAddr \<Rightarrow> in_addr_t" where
  "cidrAddr_getAddr c = addr c"

text \<open>
  \<^verbatim>\<open>up7_subscribe(request, xprt, reply)\<close>. The result is \<^verbatim>\<open>replySet\<close>, the contents of
  \<^verbatim>\<open>*reply\<close>, the state and the events.
\<close>

definition up7_subscribe ::
  "up7_env \<Rightarrow> up7_state \<Rightarrow> McastSubReq \<Rightarrow> SubscriptionReply
     \<Rightarrow> bool \<times> SubscriptionReply \<times> up7_state \<times> event list" where
  "up7_subscribe env s request rep0 =
     (case up7_reduceToAllowed env (req_feed request) of
        (reducedFeed, ev0) \<Rightarrow>
     if reducedFeed = NONE then
       (True, rep0\<lparr>status := LDM7_UNAUTH\<rparr>, s,
        ev0 @ [Log LOG_NOTICE ''Host is not allowed to receive any part of feed''])
     else
       (case up7_createVirtCirc env s reducedFeed (Some (vcEnd request)) of
          (st1, s1, ev1) \<Rightarrow>
       if st1 \<noteq> LDM7_OK then
         (False, rep0, s1, ev0 @ ev1 @ [LogAdd ''Could not create virtual circuit to host''])
       else
         (case umm_subscribe env reducedFeed of
            (st2, rep) \<Rightarrow>
         if st2 \<noteq> LDM7_OK then
           (case up7_destroyVirtCirc env s1 of
              (s2, ev2) \<Rightarrow>
                if st2 = LDM7_NOENT then
                  (True, rep0\<lparr>status := LDM7_NOENT\<rparr>, s2,
                   ev0 @ ev1 @ [Umm_subscribe reducedFeed,
                                Log LOG_NOTICE ''Allowed feed is not multicasted''] @ ev2)
                else
                  (False, rep0, s2,
                   ev0 @ ev1 @ [Umm_subscribe reducedFeed,
                                LogAdd ''Could not subscribe host to feed''] @ ev2))
         else
           (let a = cidrAddr_getAddr (fmtpAddr (SubscriptionReply_u rep))
            in case up7_openProdIndexMap env s1 (req_feed request) of
                 (st3, s2, ev3) \<Rightarrow>
                   if st3 \<noteq> LDM7_OK then
                     (case up7_destroyVirtCirc env s2 of
                        (s3, ev4) \<Rightarrow>
                          (False, rep0, s3,
                           ev0 @ ev1 @ [Umm_subscribe reducedFeed] @ ev3
                           @ [LogAdd ''Could not open product->index map'',
                              Umm_unsubscribe reducedFeed a] @ ev4))
                   else
                     (True, rep\<lparr>status := LDM7_OK\<rparr>,
                      s2\<lparr>feedtype := reducedFeed, downFmtpAddr := a\<rparr>,
                      ev0 @ ev1 @ [Umm_subscribe reducedFeed] @ ev3)))))"

text \<open>\<^verbatim>\<open>up7_ensureProductQueueOpen()\<close>.\<close>

definition up7_ensureProductQueueOpen :: "up7_env \<Rightarrow> up7_state \<Rightarrow> bool \<times> up7_state \<times> event list" where
  "up7_ensureProductQueueOpen env s =
     (case pq s of
        Some q \<Rightarrow> (True, s, [])
      | None \<Rightarrow>
          (case pq_open env of
             None \<Rightarrow> (False, s, [Pq_open, LogAdd ''Could not open product-queue''])
           | Some q \<Rightarrow>
               if \<not> atexit_ok env then
                 (False, s\<lparr>pq := Some q\<rparr>,
                  [Pq_open, LogAdd ''Could not register product-queue closing function''])
               else (True, s\<lparr>pq := Some q\<rparr>, [Pq_open])))"

text \<open>
  \<^verbatim>\<open>subscribe_7_svc(request, rqstp)\<close>. The result is the reply that the RPC layer
  sends, \<open>None\<close> for \<^verbatim>\<open>NULL\<close>.
\<close>

definition subscribe_7_svc ::
  "up7_env \<Rightarrow> up7_state \<Rightarrow> McastSubReq \<Rightarrow> SubscriptionReply option \<times> up7_state \<times> event list" where
  "subscribe_7_svc env s request =
     (let ev0 = [Log LOG_DEBUG ''subscribe_7_svc() entered'',
                 Log LOG_NOTICE ''Incoming subscription request''];
          sa = s\<lparr>reply := False\<rparr>
      in case up7_subscribe env sa request (result sa) of
           (replySet, res, sb, ev1) \<Rightarrow>
      (case
         (if \<not> replySet then (sb, [Log LOG_ERROR ''Subscription failure''])
          else
            (let sc = sb\<lparr>result := res\<rparr>
             in if status res \<noteq> LDM7_OK then (sc\<lparr>reply := True\<rparr>, [])
                else
                  (case up7_ensureProductQueueOpen env sc of
                     (ok, sd, ev2) \<Rightarrow>
                       if \<not> ok then (sd, ev2 @ [LogFlush LOG_ERROR])
                       else
                         (case up7_createClientTransport env sd of
                            (ok', se, ev3) \<Rightarrow>
                              if \<not> ok' then
                                (se, ev2 @ ev3
                                     @ [Log LOG_ERROR ''Could not create client-side RPC transport''])
                              else (se\<lparr>reply := True\<rparr>, ev2 @ ev3)))))
       of (sf, ev4) \<Rightarrow>
         if \<not> reply sf then
           (None, sf\<lparr>isDone := True\<rparr>, ev0 @ ev1 @ ev4 @ [LogFlush LOG_ERROR, Svcerr_systemerr])
         else (Some (result sf), sf, ev0 @ ev1 @ ev4)))"

subsection \<open>Requests for missed products\<close>

text \<open>
  \<^verbatim>\<open>up7_deliverProduct(info, data, xprod, len, optArg)\<close>, which \<^verbatim>\<open>pq_processProduct\<close>
  calls on the product it finds. The call is a one-way RPC: its status is
  \<^verbatim>\<open>RPC_TIMEDOUT\<close> unless an error occurred.
\<close>

definition up7_deliverProduct ::
  "up7_env \<Rightarrow> prod_info \<Rightarrow> 8 word list \<Rightarrow> FmtpProdIndex \<Rightarrow> Ldm7Status \<times> event list" where
  "up7_deliverProduct env i d iProd =
     (let missedProd = MissedProduct iProd \<lparr>info = i, data = d\<rparr>;
          ev = [Log LOG_DEBUG ''Delivering'', Rpc missedProd]
      in if stat_after env missedProd \<noteq> RPC_TIMEDOUT then
           (LDM7_SYSTEM, ev @ [LogAdd ''Could not RPC to downstream LDM-7''])
         else (LDM7_OK, ev @ [Log LOG_INFO ''Missed product sent'']))"

text \<open>
  \<^verbatim>\<open>up7_sendProduct(iProd)\<close>. The function uses the global product-queue without
  testing it: the result is \<open>None\<close> where the code would go through a \<^verbatim>\<open>NULL\<close> queue.
\<close>

definition up7_sendProduct ::
  "up7_env \<Rightarrow> up7_state \<Rightarrow> FmtpProdIndex \<Rightarrow> (Ldm7Status \<times> event list) option" where
  "up7_sendProduct env s iProd =
     (case pim_get env iProd of
        (st, sig) \<Rightarrow>
          if st = LDM7_NOENT then
            Some (LDM7_NOENT,
                  [Pim_get iProd, LogAdd ''No signature in product-index map corresponding to index''])
          else if st = LDM7_OK then
            (case pq s of
               None \<Rightarrow> None
             | Some q \<Rightarrow>
                 (case pq_processProduct q sig of
                    PQ_NOTFOUND \<Rightarrow>
                      Some (LDM7_NOENT,
                            [Pim_get iProd, Pq_processProduct sig,
                             LogAdd ''No data-product corresponding to signature''])
                  | PQ_SYSERR \<Rightarrow> Some (LDM7_SYSTEM, [Pim_get iProd, Pq_processProduct sig])
                  | PQ_FOUND p \<Rightarrow>
                      (case up7_deliverProduct env (info p) (data p) iProd of
                         (st', ev) \<Rightarrow>
                           Some (if st' \<noteq> LDM7_OK then LDM7_SYSTEM else LDM7_OK,
                                 [Pim_get iProd, Pq_processProduct sig] @ ev))))
          else Some (st, [Pim_get iProd]))"

text \<open>\<^verbatim>\<open>up7_findAndSendProduct(iProd)\<close>.\<close>

definition up7_findAndSendProduct ::
  "up7_env \<Rightarrow> up7_state \<Rightarrow> FmtpProdIndex \<Rightarrow> (bool \<times> event list) option" where
  "up7_findAndSendProduct env s iProd =
     (case up7_sendProduct env s iProd of
        None \<Rightarrow> None
      | Some (st, ev) \<Rightarrow>
          if st = LDM7_NOENT then
            (if stat_after env (NoSuchProduct iProd) = RPC_TIMEDOUT then
               Some (True, ev @ [LogFlush LOG_INFO, Rpc (NoSuchProduct iProd)])
             else
               Some (False, ev @ [LogFlush LOG_INFO, Rpc (NoSuchProduct iProd),
                                  LogAdd ''Could not RPC to downstream LDM-7'']))
          else Some (st = LDM7_OK, ev))"

text \<open>\<^verbatim>\<open>request_product_7_svc(iProd, rqstp)\<close>. It never replies.\<close>

definition request_product_7_svc ::
  "up7_env \<Rightarrow> up7_state \<Rightarrow> FmtpProdIndex \<Rightarrow> (up7_state \<times> event list) option" where
  "request_product_7_svc env s iProd =
     (if clnt s = None then
        Some (s\<lparr>isDone := True\<rparr>,
              [Log LOG_DEBUG ''Entered'', Log LOG_ERROR ''Client has not subscribed yet''])
      else
        (case up7_findAndSendProduct env s iProd of
           None \<Rightarrow> None
         | Some (ok, ev) \<Rightarrow>
             if \<not> ok then
               (case up7_destroyClient s of
                  (s', ev') \<Rightarrow>
                    Some (s'\<lparr>isDone := True\<rparr>,
                          [Log LOG_DEBUG ''Entered''] @ ev @ [LogFlush LOG_ERROR] @ ev'))
             else Some (s, [Log LOG_DEBUG ''Entered''] @ ev)))"

subsection \<open>Requests for the backlog\<close>

text \<open>\<^verbatim>\<open>up7_setCursorFromSignature(after)\<close>, on the queue that \<^verbatim>\<open>pq\<close> points to.\<close>

definition up7_setCursorFromSignature ::
  "pqueue \<Rightarrow> signaturet \<Rightarrow> Ldm7Status \<times> pqueue \<times> event list" where
  "up7_setCursorFromSignature q sig =
     (case pq_setCursorFromSignature q sig of
        (PQ_OK, q') \<Rightarrow> (LDM7_OK, q', [Pq_setCursorFromSignature sig])
      | (PQ_NOTFOUND_STATUS, q') \<Rightarrow>
          (LDM7_NOENT, q',
           [Pq_setCursorFromSignature sig,
            Log LOG_INFO ''Data-product with signature was not found in product-queue''])
      | (PQ_ERROR, q') \<Rightarrow>
          (LDM7_SYSTEM, q',
           [Pq_setCursorFromSignature sig,
            LogAdd ''Could not set product-queue cursor from signature'']))"

text \<open>\<^verbatim>\<open>up7_setCursorFromTimeOffset(offset)\<close>, on the queue that \<^verbatim>\<open>pq\<close> points to.\<close>

definition up7_setCursorFromTimeOffset ::
  "up7_env \<Rightarrow> pqueue \<Rightarrow> 32 word \<Rightarrow> pqueue \<times> event list" where
  "up7_setCursorFromTimeOffset env q offset =
     (let ts = cursorTimeFromOffset (time_now env) offset
      in (pq_cset q ts, [Pq_cset ts]))"

text \<open>\<^verbatim>\<open>up7_setProductQueueCursor(backlog)\<close>.\<close>

definition up7_setProductQueueCursor ::
  "up7_env \<Rightarrow> pqueue \<Rightarrow> BacklogSpec \<Rightarrow> bool \<times> pqueue \<times> event list" where
  "up7_setProductQueueCursor env q backlog =
     (if afterIsSet backlog then
        (case up7_setCursorFromSignature q (after backlog) of
           (st, q', ev) \<Rightarrow>
             if st = LDM7_OK then (True, q', ev)
             else if st = LDM7_NOENT then
               (case up7_setCursorFromTimeOffset env q' (timeOffset backlog) of
                  (q'', ev') \<Rightarrow> (True, q'', ev @ ev'))
             else (False, q', ev))
      else
        (case up7_setCursorFromTimeOffset env q (timeOffset backlog) of
           (q', ev) \<Rightarrow> (True, q', ev)))"

text \<open>
  The values that \<^verbatim>\<open>up7_sendIfNotSignature\<close> returns: 0, \<^verbatim>\<open>EEXIST\<close> and \<^verbatim>\<open>EIO\<close>.
\<close>

datatype callback_status = CB_OK | CB_EEXIST | CB_EIO

text \<open>
  \<^verbatim>\<open>up7_sendIfNotSignature(info, data, xprod, size, arg)\<close>, which \<^verbatim>\<open>pq_sequence\<close>
  calls on a product of the class; \<^verbatim>\<open>memcmp\<close> compares the two signatures.
\<close>

definition up7_sendIfNotSignature ::
  "up7_env \<Rightarrow> prod_info \<Rightarrow> 8 word list \<Rightarrow> signaturet \<Rightarrow> callback_status \<times> event list" where
  "up7_sendIfNotSignature env i d sig =
     (if sig = signature i then (CB_EEXIST, [])
      else
        (let prod = BacklogProduct \<lparr>info = i, data = d\<rparr>
         in if stat_after env prod \<noteq> RPC_TIMEDOUT then
              (CB_EIO, [Rpc prod, LogAdd ''Could not send backlog data-product to downstream LDM-7''])
            else (CB_OK, [Rpc prod, Log LOG_NOTICE ''Backlog product sent''])))"

text \<open>
  The loop \<^verbatim>\<open>for (;;)\<close> of \<^verbatim>\<open>up7_sendUpToSignature\<close>: one \<^verbatim>\<open>pq_sequence\<close> per turn,
  until the status is \<^verbatim>\<open>EEXIST\<close>, \<^verbatim>\<open>PQUEUE_END\<close> or another error.
\<close>

function sendUpToSignature_loop ::
  "up7_env \<Rightarrow> feedtypet \<Rightarrow> signaturet \<Rightarrow> pqueue \<Rightarrow> Ldm7Status \<times> pqueue \<times> event list" where
  "sendUpToSignature_loop env ft sig q =
     (case pq_sequence q ft of
        (SEQ_ERROR, q') \<Rightarrow> (LDM7_SYSTEM, q', [Pq_sequence])
      | (SEQ_END, q') \<Rightarrow>
          (LDM7_NOENT, q',
           [Pq_sequence, Log LOG_INFO ''End-of-backlog product not found before end-of-queue''])
      | (SEQ_SKIPPED, q') \<Rightarrow>
          (case sendUpToSignature_loop env ft sig q' of
             (st, q'', ev) \<Rightarrow> (st, q'', Pq_sequence # ev))
      | (SEQ_MATCH p, q') \<Rightarrow>
          (case up7_sendIfNotSignature env (info p) (data p) sig of
             (CB_EEXIST, ev) \<Rightarrow> (LDM7_OK, q', Pq_sequence # ev)
           | (CB_EIO, ev) \<Rightarrow> (LDM7_SYSTEM, q', Pq_sequence # ev)
           | (CB_OK, ev) \<Rightarrow>
               (case sendUpToSignature_loop env ft sig q' of
                  (st, q'', ev') \<Rightarrow> (st, q'', Pq_sequence # ev @ ev'))))"
  by pat_completeness auto
termination
  by (relation "measure (\<lambda>(env, ft, sig, q). length (prods q) - cursor q)")
     (auto simp: pq_sequence_def Let_def split: if_splits)

declare sendUpToSignature_loop.simps [simp del]

text \<open>
  \<^verbatim>\<open>up7_sendUpToSignature(before)\<close>, on the queue that \<^verbatim>\<open>pq\<close> points to. The product
  class is a copy of \<^verbatim>\<open>PQ_CLASS_ALL\<close> with the feed of the subscription.
\<close>

definition up7_sendUpToSignature ::
  "up7_env \<Rightarrow> up7_state \<Rightarrow> pqueue \<Rightarrow> signaturet \<Rightarrow> Ldm7Status \<times> pqueue \<times> event list" where
  "up7_sendUpToSignature env s q sig =
     (if \<not> dup_prod_class_ok env then (LDM7_SYSTEM, q, [])
      else sendUpToSignature_loop env (feedtype s) sig q)"

text \<open>
  \<^verbatim>\<open>up7_sendBacklog(backlog)\<close>. The function uses the global product-queue without
  testing it: the result is \<open>None\<close> where the code would go through a \<^verbatim>\<open>NULL\<close> queue.
\<close>

definition up7_sendBacklog ::
  "up7_env \<Rightarrow> up7_state \<Rightarrow> BacklogSpec \<Rightarrow> (bool \<times> up7_state \<times> event list) option" where
  "up7_sendBacklog env s backlog =
     (case pq s of
        None \<Rightarrow> None
      | Some q \<Rightarrow>
          (case up7_setProductQueueCursor env q backlog of
             (ok, q', ev) \<Rightarrow>
               if \<not> ok then Some (False, s\<lparr>pq := Some q'\<rparr>, ev)
               else
                 (case up7_sendUpToSignature env s q' (before backlog) of
                    (st, q'', ev') \<Rightarrow>
                      Some (st \<noteq> LDM7_SYSTEM, s\<lparr>pq := Some q''\<rparr>, ev @ ev'))))"

text \<open>\<^verbatim>\<open>request_backlog_7_svc(backlog, rqstp)\<close>. It never replies.\<close>

definition request_backlog_7_svc ::
  "up7_env \<Rightarrow> up7_state \<Rightarrow> BacklogSpec \<Rightarrow> (up7_state \<times> event list) option" where
  "request_backlog_7_svc env s backlog =
     (if clnt s = None then
        Some (s\<lparr>isDone := True\<rparr>,
              [Log LOG_DEBUG ''Entered'', Log LOG_ERROR ''Client has not subscribed yet''])
      else
        (case up7_sendBacklog env s backlog of
           None \<Rightarrow> None
         | Some (ok, s1, ev) \<Rightarrow>
             if \<not> ok then
               (case up7_destroyClient s1 of
                  (s', ev') \<Rightarrow>
                    Some (s'\<lparr>isDone := True\<rparr>,
                          [Log LOG_DEBUG ''Entered''] @ ev @ [LogFlush LOG_ERROR] @ ev'))
             else Some (s1, [Log LOG_DEBUG ''Entered''] @ ev)))"

text \<open>\<^verbatim>\<open>test_connection_7_svc(no_op, rqstp)\<close>.\<close>

definition test_connection_7_svc :: "up7_state \<Rightarrow> up7_state \<times> event list" where
  "test_connection_7_svc s = (s, [Log LOG_DEBUG ''Entered''])"

text \<open>The one-way messages among the events, in the order sent.\<close>

definition rpcs :: "event list \<Rightarrow> notification list" where
  "rpcs tr = [n. Rpc n \<leftarrow> tr]"

text \<open>
  The backlog in the words of the specification: sequence forward from the cursor until a
  product whose signature equals \<open>sig\<close> is reached, which is not included, and emit each
  product before it that matches the granted feed.
\<close>

definition backlog_spec :: "feedtypet \<Rightarrow> signaturet \<Rightarrow> pqueue \<Rightarrow> product list" where
  "backlog_spec ft sig q =
     filter (\<lambda>p. prodInClass ft (info p))
       (takeWhile (\<lambda>p. signature (info p) \<noteq> sig) (drop (cursor q) (prods q)))"

text \<open>
  The condition under which the requests use the product-queue: while the client-side
  transport exists, the queue is open.
\<close>

definition queue_open_if_subscribed :: "up7_state \<Rightarrow> bool" where
  "queue_open_if_subscribed s = (clnt s \<noteq> None \<longrightarrow> pq s \<noteq> None)"

section \<open>mldm_sender.c: the multicast LDM sender\<close>

subsection \<open>Multicasting the products of the queue\<close>

text \<open>
  What the calls of one \<^verbatim>\<open>mls_multicastProduct\<close> return: the index that
  \<^verbatim>\<open>fmtpSender_getNextProdIndex\<close> gives, the values of \<^verbatim>\<open>om_put\<close>, \<^verbatim>\<open>pim_put\<close> and
  \<^verbatim>\<open>fmtpSender_send\<close>, and the index that \<^verbatim>\<open>fmtpSender_send\<close> stores through its last
  argument.
\<close>

record responses =
  next_iProd :: FmtpProdIndex
  om_put :: int
  pim_put :: int
  fmtp_send :: int
  sent_iProd :: FmtpProdIndex

text \<open>
  One \<^verbatim>\<open>pq_sequenceLock\<close>: either it returns a status without calling
  \<^verbatim>\<open>mls_multicastProduct\<close> (no product, a product outside the class, an error), or it
  locks a product of the class and calls the function on the product, its XDR encoding
  and its offset in the queue.
\<close>

datatype locked =
  NoCall int
  | Locked product "8 word list" "64 word" responses

text \<open>
  One turn of the loop of \<^verbatim>\<open>mls_startMulticasting\<close>: what \<^verbatim>\<open>pq_sequenceLock\<close> does,
  and whether a termination signal has set the flag \<^verbatim>\<open>done\<close> by the time
  \<^verbatim>\<open>mls_tryMulticast\<close> reads it, which it does when there is no product. A signal
  that arrives later in the turn ends the turns.
\<close>

record turn =
  lock :: locked
  done_set :: bool

text \<open>
  The command line as \<^verbatim>\<open>getopt\<close> with the option string
  \<^verbatim>\<open>":F:f:l:m:p:q:r:s:t:vx"\<close> reads it: the options in order, one constructor for each
  value that \<^verbatim>\<open>getopt\<close> returns, with the option-argument; \<open>Opt_missing\<close> for
  \<^verbatim>\<open>':'\<close> (an option without its argument) and \<open>Opt_unknown\<close> for \<^verbatim>\<open>'?'\<close>.
\<close>

datatype opt =
  Opt_F string | Opt_f string | Opt_l string | Opt_m string | Opt_p string | Opt_q string
  | Opt_r string | Opt_s string | Opt_t string | Opt_v | Opt_x
  | Opt_missing char | Opt_unknown char

text \<open>
  What the calls that leave \<^verbatim>\<open>mldm_sender.c\<close> return. \<open>ldm7\<close> gives the values of
  the enumerators of \<^verbatim>\<open>Ldm7Status\<close> and \<open>PQUEUE_END\<close> the value of that macro
  (\<^verbatim>\<open>ldm.h\<close> and \<^verbatim>\<open>pq.h\<close> are not among the sources at hand), \<open>EXP\<close> the
  default feed. \<open>turns\<close> are the turns of the loop until the loop
  finds \<^verbatim>\<open>done\<close> set by a termination signal. The other fields are named
  after the function whose value they hold; a function that returns a pointer has a
  field \<open>_ok\<close>, false for \<^verbatim>\<open>NULL\<close>. \<open>options\<close> and \<open>operands\<close> are the command
  line; \<open>scan_port\<close>, \<open>scan_float\<close> and \<open>scan_ttl\<close> are the conversions by
  \<^verbatim>\<open>sscanf\<close> of a whole option-argument (\<open>None\<close> or false when the test on the
  result of \<^verbatim>\<open>sscanf\<close> rejects the argument). \<open>NDEBUG\<close> tells whether the file is
  compiled with that macro, which empties \<^verbatim>\<open>log_assert\<close>.
\<close>

record mls_env =
  ldm7 :: "Ldm7Status \<Rightarrow> int"
  PQUEUE_END :: int
  EXP :: feedtypet
  log_is_enabled_info :: bool
  turns :: "turn list"
  dup_prod_class_ok' :: bool
  inAddrPool_new_ok :: bool
  auth_new_ok :: bool
  mldmSrvr_new_ok :: bool
  pthread_create :: int
  mldmSrvr_getPort :: in_port_t
  pthread_cancel :: int
  pthread_join :: int
  getDottedDecimal :: "string \<Rightarrow> int"
  om_new_ok :: bool
  pq_open' :: int
  pim_openForWriting :: int
  pim_getNextProdIndex :: int
  mi_copy :: int
  fmtpSender_create :: "int \<times> in_port_t"
  fmtpSender_terminate :: int
  printf_ok :: bool
  fflush :: int
  NDEBUG :: bool
  om_get :: "FmtpProdIndex \<Rightarrow> (64 word) option"
  pq_release :: "64 word \<Rightarrow> int"
  options :: "opt list"
  operands :: "string list"
  strfeedtypet :: "string \<Rightarrow> feedtypet option"
  scan_port :: "string \<Rightarrow> in_port_t option"
  scan_float :: "string \<Rightarrow> bool"
  scan_ttl :: "string \<Rightarrow> nat option"
  sa_parse :: "string \<Rightarrow> int \<times> ServiceAddr"
  cidrAddr_parse :: "string \<Rightarrow> CidrAddr option"
  sa_new :: int
  mi_new :: int

text \<open>
  The values of \<^verbatim>\<open>errno.h\<close> that the file names, as on Linux.
\<close>

definition EINVAL :: int where
  "EINVAL = 22"

definition ENOMEM :: int where
  "ENOMEM = 12"

definition ENOENT :: int where
  "ENOENT = 2"

text \<open>
  What the code relies on: the enumerators have distinct values (they are the labels
  of one \<^verbatim>\<open>switch\<close> in \<^verbatim>\<open>main\<close>), none of them negative, \<^verbatim>\<open>LDM7_OK\<close> is 0, and
  \<^verbatim>\<open>PQUEUE_END\<close> is negative.
\<close>

definition constants_ok :: "mls_env \<Rightarrow> bool" where
  "constants_ok env =
     (inj (ldm7 env) \<and> ldm7 env LDM7_OK = 0 \<and> (\<forall>s. 0 \<le> ldm7 env s) \<and> PQUEUE_END env < 0)"

text \<open>\<^verbatim>\<open>mls_doneWithProduct(prodIndex)\<close>, which the FMTP layer calls.\<close>

definition mls_doneWithProduct :: "mls_env \<Rightarrow> FmtpProdIndex \<Rightarrow> event list" where
  "mls_doneWithProduct env prodIndex =
     (case om_get env prodIndex of
        None \<Rightarrow> [Om_get prodIndex,
                 Log LOG_ERROR ''Could not get file-offset corresponding to product-index'']
      | Some offset \<Rightarrow>
          [Om_get prodIndex, Pq_release offset]
          @ (if pq_release env offset \<noteq> 0
             then [Log LOG_ERROR ''Could not release data-product in product-queue''] else []))"

text \<open>
  \<^verbatim>\<open>mls_multicastProduct(info, data, xprod, size, arg)\<close>; \<open>offset\<close> is the value
  that \<^verbatim>\<open>arg\<close> points to.
\<close>

definition mls_multicastProduct ::
  "mls_env \<Rightarrow> responses \<Rightarrow> prod_info \<Rightarrow> 8 word list \<Rightarrow> 64 word \<Rightarrow> int \<times> event list" where
  "mls_multicastProduct env r i xprod offset =
     (let iProd = next_iProd r;
          ev0 = [Fmtp_getNextProdIndex iProd, Om_put iProd offset]
      in if om_put r \<noteq> 0 then
           (om_put r, ev0 @ [LogAdd ''Could not add product, offset to map''])
         else if pim_put r \<noteq> 0 then
           (pim_put r,
            ev0 @ [Pim_put iProd (signature i), LogAdd ''Could not add to product-index map''])
         else if fmtp_send r \<noteq> 0 then
           (ldm7 env LDM7_MCAST,
            ev0 @ [Pim_put iProd (signature i), Fmtp_send iProd (signature i) xprod,
                   Om_get (sent_iProd r)])
         else
           (0, ev0 @ [Pim_put iProd (signature i), Fmtp_send iProd (signature i) xprod]
               @ (if log_is_enabled_info env then [Log LOG_INFO ''Sent''] else [])))"

text \<open>
  \<^verbatim>\<open>mls_tryMulticast(prodClass)\<close>. The result is the status, the flag \<^verbatim>\<open>done\<close> at the
  end, and the events.
\<close>

definition mls_tryMulticast :: "mls_env \<Rightarrow> turn \<Rightarrow> int \<times> bool \<times> event list" where
  "mls_tryMulticast env t =
     (case (case lock t of
              NoCall n \<Rightarrow> (n, [Pq_sequenceLock])
            | Locked p xprod offset r \<Rightarrow>
                (case mls_multicastProduct env r (info p) xprod offset of
                   (st, ev) \<Rightarrow> (st, Pq_sequenceLock # ev)))
      of (st, ev) \<Rightarrow>
        if st = PQUEUE_END env then
          (0, done_set t,
           ev @ [BlockTermSigs]
              @ (if \<not> done_set t then [Pq_suspendAndUnblock 30] else [])
              @ [UnblockTermSigs])
        else if st < 0 then
          (ldm7 env LDM7_PQ, done_set t, ev @ [Log LOG_ERROR ''Error in product-queue''])
        else (st, done_set t, ev))"

text \<open>
  The loop \<^verbatim>\<open>while (0 == status && !done)\<close> of \<^verbatim>\<open>mls_startMulticasting\<close>, over the
  turns that the environment holds: after the last of them \<^verbatim>\<open>done\<close> is set.
\<close>

fun multicast_loop :: "mls_env \<Rightarrow> turn list \<Rightarrow> int \<times> event list" where
  "multicast_loop env [] = (0, [])"
| "multicast_loop env (t # ts) =
     (case mls_tryMulticast env t of
        (st, d, ev) \<Rightarrow>
          if st = 0 \<and> \<not> d then
            (case multicast_loop env ts of (st', ev') \<Rightarrow> (st', ev @ ev'))
          else (st, ev))"

text \<open>\<^verbatim>\<open>mls_setProdClass\<close> and \<^verbatim>\<open>mls_startMulticasting()\<close>.\<close>

definition mls_startMulticasting :: "mls_env \<Rightarrow> int \<times> event list" where
  "mls_startMulticasting env =
     (if \<not> dup_prod_class_ok' env then (ldm7 env LDM7_SYSTEM, [Call ''dup_prod_class''])
      else
        (case multicast_loop env (turns env) of
           (st, ev) \<Rightarrow>
             (st, [Call ''dup_prod_class'', Call ''set_timestamp'', Call ''pq_cset''] @ ev
                  @ [Call ''free_prod_class''])))"

subsection \<open>Start and end of the sender\<close>

text \<open>
  How a function ends: it returns a status; or an assertion fails and \<^verbatim>\<open>log_abort\<close>
  ends the process; or it reads a variable that was never set, after which the C
  standard leaves its behaviour undefined.
\<close>

datatype outcome = Undefined | Aborted "event list" | Returned int "event list"

text \<open>
  \<^verbatim>\<open>startAuthorization(fmtpSubnet)\<close>. Where \<^verbatim>\<open>auth_new\<close> returns \<^verbatim>\<open>NULL\<close> the
  function logs and then tests and returns \<^verbatim>\<open>status\<close>, which no statement has set.
\<close>

definition startAuthorization :: "mls_env \<Rightarrow> outcome" where
  "startAuthorization env =
     (if \<not> inAddrPool_new_ok env then
        Returned (ldm7 env LDM7_SYSTEM)
          [Call ''inAddrPool_new'', LogAdd ''Could not create pool of available IP addresses'']
      else if \<not> auth_new_ok env then Undefined
      else
        (let new = [Call ''inAddrPool_new'', Call ''auth_new'', Call ''mldmSrvr_new''];
             st = (if \<not> mldmSrvr_new_ok env \<or> pthread_create env \<noteq> 0
                   then ldm7 env LDM7_SYSTEM else ldm7 env LDM7_OK);
             undo = (if st \<noteq> 0 then [Call ''auth_delete'', Call ''inAddrPool_delete''] else [])
         in if \<not> mldmSrvr_new_ok env then
              Returned st
                (new @ [LogAdd ''Could not create multicast LDM RPC command-server''] @ undo)
            else if pthread_create env \<noteq> 0 then
              Returned st
                (new @ [Call ''pthread_create'',
                        LogAdd ''Could not create multicast LDM RPC command-server thread'',
                        Call ''mldmSrvr_free''] @ undo)
            else Returned st (new @ [Call ''pthread_create'', Call ''mldmSrvr_getPort''] @ undo)))"

text \<open>\<^verbatim>\<open>stopAuthorization()\<close>.\<close>

definition stopAuthorization :: "mls_env \<Rightarrow> event list" where
  "stopAuthorization env =
     (if pthread_cancel env \<noteq> 0 then
        [Call ''pthread_cancel'',
         LogAdd ''Could not cancel multicast LDM RPC command-server thread'']
      else if pthread_join env \<noteq> 0 then
        [Call ''pthread_cancel'', Call ''pthread_join'',
         LogAdd ''Could not join multicast LDM RPC command-server thread'']
      else
        [Call ''pthread_cancel'', Call ''pthread_join'', Call ''mldmSrvr_free'',
         Call ''auth_delete'', Call ''inAddrPool_delete''])"

text \<open>\<^verbatim>\<open>mls_getIpv4Addr(inetId, desc, buf)\<close>.\<close>

definition mls_getIpv4Addr :: "mls_env \<Rightarrow> string \<Rightarrow> int \<times> event list" where
  "mls_getIpv4Addr env inetId' =
     (let st = getDottedDecimal env inetId'
      in if st = 0 then (0, [Call ''getDottedDecimal''])
         else (if st = EINVAL \<or> st = ENOENT then ldm7 env LDM7_INVAL else ldm7 env LDM7_SYSTEM,
               [Call ''getDottedDecimal'', LogAdd ''Could not get address'']))"

text \<open>
  \<^verbatim>\<open>mls_init(info, ttl, mcastIface, retxTimeout, pqPathname, authorizer)\<close>. The result
  is the status, the static \<^verbatim>\<open>mcastInfo\<close> (with the port that the FMTP TCP server
  listens on, which \<^verbatim>\<open>fmtpSender_create\<close> stores) and the events; the labels of the
  source are the lists of calls that undo what was done.
\<close>

definition mls_init :: "mls_env \<Rightarrow> McastInfo \<Rightarrow> int \<times> McastInfo \<times> event list" where
  "mls_init env i =
     (let free_offMap = [Call ''om_free''];
          close_pq = Call ''pq_close'' # free_offMap;
          close_prod_index_map = Call ''pim_close'' # close_pq;
          free_mcastInfo = Call ''xdr_free'' # close_prod_index_map
      in case mls_getIpv4Addr env (inetId (server i)) of
           (st1, ev1) \<Rightarrow>
      if st1 \<noteq> 0 then (st1, i, ev1)
      else case mls_getIpv4Addr env (inetId (group i)) of
           (st2, ev2) \<Rightarrow>
      if st2 \<noteq> 0 then (st2, i, ev1 @ ev2)
      else if \<not> om_new_ok env then
        (ldm7 env LDM7_SYSTEM, i,
         ev1 @ ev2 @ [Call ''om_new'', LogAdd ''Could not create prodIndex-to-prodQueueOffset map''])
      else if pq_open' env \<noteq> 0 then
        (ldm7 env LDM7_SYSTEM, i,
         ev1 @ ev2 @ [Call ''om_new'', Call ''pq_open'', LogAdd ''Could not open product-queue'']
         @ free_offMap)
      else if pim_openForWriting env \<noteq> 0 then
        (pim_openForWriting env, i,
         ev1 @ ev2 @ [Call ''om_new'', Call ''pq_open'', Call ''pim_openForWriting''] @ close_pq)
      else if pim_getNextProdIndex env \<noteq> 0 then
        (pim_getNextProdIndex env, i,
         ev1 @ ev2 @ [Call ''om_new'', Call ''pq_open'', Call ''pim_openForWriting'',
                      Call ''pim_getNextProdIndex''] @ close_prod_index_map)
      else if mi_copy env \<noteq> 0 then
        (ldm7 env LDM7_SYSTEM, i,
         ev1 @ ev2 @ [Call ''om_new'', Call ''pq_open'', Call ''pim_openForWriting'',
                      Call ''pim_getNextProdIndex'', Call ''mi_copy''] @ close_prod_index_map)
      else
        (let created = ev1 @ ev2 @ [Call ''om_new'', Call ''pq_open'', Call ''pim_openForWriting'',
                      Call ''pim_getNextProdIndex'', Call ''mi_copy'', Call ''fmtpSender_create''];
             st = fst (fmtpSender_create env);
             mi = i\<lparr>server := (server i)\<lparr>port := snd (fmtpSender_create env)\<rparr>\<rparr>
         in if st \<noteq> 0 then
              (if st = 1 then ldm7 env LDM7_INVAL
               else if st = 2 then ldm7 env LDM7_MCAST
               else ldm7 env LDM7_SYSTEM,
               mi, created @ [LogAdd ''Could not create FMTP sender''] @ free_mcastInfo)
            else (0, mi, created)))"

text \<open>\<^verbatim>\<open>mls_destroy()\<close>.\<close>

definition mls_destroy :: "mls_env \<Rightarrow> int \<times> event list" where
  "mls_destroy env =
     (let st = fmtpSender_terminate env
      in (if st = 0 then 0 else if st = 2 then ldm7 env LDM7_MCAST else ldm7 env LDM7_SYSTEM,
          [Call ''fmtpSender_terminate'', Call ''xdr_free'', Call ''pim_close'', Call ''pq_close'']))"

definition EOF :: int where
  "EOF = - 1"

text \<open>
  The line of \<^verbatim>\<open>printf("%hu %hu\n", ...)\<close>: the port of the FMTP TCP server and the
  port of the multicast LDM RPC command-server.
\<close>

definition port_line :: "in_port_t \<Rightarrow> in_port_t \<Rightarrow> string" where
  "port_line p1 p2 = dec (unat p1) @ '' '' @ dec (unat p2) @ [newline]"

text \<open>
  \<^verbatim>\<open>mls_execute(info, ttl, mcastIface, retxTimeout, pqPathname, fmtpSubnet)\<close>.
\<close>

definition mls_execute :: "mls_env \<Rightarrow> McastInfo \<Rightarrow> outcome" where
  "mls_execute env i =
     (let ev0 = [Call ''mls_blockPqSignals'', BlockTermSigs]
      in case startAuthorization env of
           Undefined \<Rightarrow> Undefined
         | Aborted ev \<Rightarrow> Aborted (ev0 @ ev)
         | Returned st1 ev1 \<Rightarrow>
             if st1 \<noteq> 0 then
               Returned st1
                 (ev0 @ ev1 @ [LogAdd ''Could not initialize authorization of remote clients''])
             else
               (case mls_init env i of
                  (st2, mi, ev2) \<Rightarrow>
                    if st2 \<noteq> 0 then
                      Returned st2
                        (ev0 @ ev1 @ ev2
                         @ [UnblockTermSigs, LogAdd ''Could not initialize multicast LDM sender'']
                         @ stopAuthorization env)
                    else
                      (let started = ev0 @ ev1 @ ev2
                             @ [UnblockTermSigs,
                                Printf (port_line (port (server mi)) (mldmSrvr_getPort env))
                                  (printf_ok env)]
                       in if \<not> printf_ok env then
                            Returned (ldm7 env LDM7_SYSTEM)
                              (started
                               @ [LogAdd ''Could not write port numbers to standard output'']
                               @ stopAuthorization env)
                          else if \<not> NDEBUG env \<and> fflush env = EOF then
                            Aborted (started @ [Call ''fflush'', Call ''log_abort''])
                          else
                            (case mls_startMulticasting env of
                               (st3, ev3) \<Rightarrow>
                                 (case mls_destroy env of
                                    (msStatus, ev4) \<Rightarrow>
                                      Returned (if st3 = 0 then msStatus else st3)
                                        (started
                                         @ [Call ''fflush'',
                                            Log LOG_NOTICE ''Multicast LDM sender starting up'']
                                         @ ev3 @ ev4 @ stopAuthorization env))))))"

text \<open>
  The multicast LDM RPC command-server has been started: \<^verbatim>\<open>startAuthorization\<close> has
  created the pool of addresses, the authorizer, the command-server, which binds its
  port, and the thread that runs it.
\<close>

definition command_server_started :: "mls_env \<Rightarrow> bool" where
  "command_server_started env =
     (inAddrPool_new_ok env \<and> auth_new_ok env \<and> mldmSrvr_new_ok env
      \<and> pthread_create env = 0)"

text \<open>
  The FMTP TCP server has been started: \<^verbatim>\<open>fmtpSender_create\<close>, which binds its port, has
  succeeded. It is the last call of \<^verbatim>\<open>mls_init\<close>, made when every call before it has
  succeeded.
\<close>

definition fmtp_server_started :: "mls_env \<Rightarrow> McastInfo \<Rightarrow> bool" where
  "fmtp_server_started env i =
     (getDottedDecimal env (inetId (server i)) = 0 \<and> getDottedDecimal env (inetId (group i)) = 0
      \<and> om_new_ok env \<and> pq_open' env = 0 \<and> pim_openForWriting env = 0
      \<and> pim_getNextProdIndex env = 0 \<and> mi_copy env = 0 \<and> fst (fmtpSender_create env) = 0)"

subsection \<open>The command line and \<^verbatim>\<open>main\<close>\<close>

text \<open>
  What \<^verbatim>\<open>mls_decodeOptions\<close> stores through its arguments and in the queue path. The
  option-argument of \<^verbatim>\<open>-r\<close> is kept as text: this file only passes the
  \<^verbatim>\<open>float\<close> on to the FMTP layer.
\<close>

record settings =
  s_feed :: feedtypet
  s_serverIface :: string
  s_serverPort :: in_port_t
  s_ttl :: nat
  s_ifaceAddr :: string
  s_retxTimeout :: "string option"
  s_pqfname :: "string option"

text \<open>
  \<^verbatim>\<open>mls_decodeOptions\<close>: the loop over \<^verbatim>\<open>getopt\<close>, which returns 1 at the first option
  that it rejects.
\<close>

fun mls_decodeOptions :: "mls_env \<Rightarrow> opt list \<Rightarrow> settings \<Rightarrow> int \<times> settings \<times> event list" where
  "mls_decodeOptions env [] st = (0, st, [Call ''setQueuePath''])"
| "mls_decodeOptions env (Opt_f a # os) st =
     (case strfeedtypet env a of
        None \<Rightarrow> (1, st, [LogAdd ''Invalid feed expression''])
      | Some f \<Rightarrow> mls_decodeOptions env os (st\<lparr>s_feed := f\<rparr>))"
| "mls_decodeOptions env (Opt_l a # os) st =
     (case mls_decodeOptions env os st of
        (r, st', ev) \<Rightarrow> (r, st', Call ''log_set_destination'' # ev))"
| "mls_decodeOptions env (Opt_m a # os) st = mls_decodeOptions env os (st\<lparr>s_ifaceAddr := a\<rparr>)"
| "mls_decodeOptions env (Opt_p a # os) st =
     (case scan_port env a of
        None \<Rightarrow> (1, st, [LogAdd ''Could not decode TCP-server port-number option-argument''])
      | Some p \<Rightarrow> mls_decodeOptions env os (st\<lparr>s_serverPort := p\<rparr>))"
| "mls_decodeOptions env (Opt_q a # os) st = mls_decodeOptions env os (st\<lparr>s_pqfname := Some a\<rparr>)"
| "mls_decodeOptions env (Opt_r a # os) st =
     (if \<not> scan_float env a then
        (1, st, [LogAdd ''Could not decode FMTP retransmission timeout option-argument''])
      else mls_decodeOptions env os (st\<lparr>s_retxTimeout := Some a\<rparr>))"
| "mls_decodeOptions env (Opt_s a # os) st = mls_decodeOptions env os (st\<lparr>s_serverIface := a\<rparr>)"
| "mls_decodeOptions env (Opt_t a # os) st =
     (case scan_ttl env a of
        None \<Rightarrow> (1, st, [LogAdd ''Could not decode time-to-live option-argument''])
      | Some t \<Rightarrow>
          if t \<ge> 255 then (1, st, [LogAdd ''Invalid time-to-live option-argument''])
          else mls_decodeOptions env os (st\<lparr>s_ttl := t\<rparr>))"
| "mls_decodeOptions env (Opt_v # os) st =
     (case mls_decodeOptions env os st of
        (r, st', ev) \<Rightarrow>
          (r, st', (if \<not> log_is_enabled_info env then [Call ''log_set_level''] else []) @ ev))"
| "mls_decodeOptions env (Opt_x # os) st =
     (case mls_decodeOptions env os st of
        (r, st', ev) \<Rightarrow> (r, st', Call ''log_set_level'' # ev))"
| "mls_decodeOptions env (Opt_missing c # os) st =
     (1, st, [LogAdd ''Option requires an argument''])"
| "mls_decodeOptions env (Opt_unknown c # os) st = (1, st, [LogAdd ''Unknown option''])"
| "mls_decodeOptions env (Opt_F a # os) st = (1, st, [LogAdd ''Unknown option''])"

text \<open>\<^verbatim>\<open>mls_setServiceAddr(id, port, serviceAddr)\<close>.\<close>

definition mls_setServiceAddr :: "mls_env \<Rightarrow> int" where
  "mls_setServiceAddr env =
     (let st = sa_new env in if 0 = st then 0 else if EINVAL = st then 1 else 2)"

text \<open>\<^verbatim>\<open>mls_decodeGroupAddr(arg, groupAddr)\<close>.\<close>

definition mls_decodeGroupAddr :: "mls_env \<Rightarrow> string \<Rightarrow> int \<times> event list" where
  "mls_decodeGroupAddr env arg =
     (let st = fst (sa_parse env arg)
      in if ENOMEM = st then (2, [])
         else if st \<noteq> 0 then (st, [LogAdd ''Invalid multicast group specification''])
         else (st, []))"

text \<open>
  \<^verbatim>\<open>mls_decodeOperands(argc, argv, groupAddr, fmtpSubnet)\<close>. The result is the status,
  the group address and the subnet if they were set, and the events.
\<close>

definition mls_decodeOperands ::
  "mls_env \<Rightarrow> string list \<Rightarrow> int \<times> (ServiceAddr \<times> CidrAddr) option \<times> event list" where
  "mls_decodeOperands env argv =
     (case argv of
        [] \<Rightarrow> (1, None, [LogAdd ''Multicast group not specified''])
      | arg # argv' \<Rightarrow>
          (case mls_decodeGroupAddr env arg of
             (st, ev) \<Rightarrow>
               if st \<noteq> 0 then (st, None, ev)
               else
                 (case argv' of
                    [] \<Rightarrow> (1, None, ev @ [LogAdd ''FMTP network not specified'', Call ''sa_free''])
                  | arg' # argv'' \<Rightarrow>
                      (case cidrAddr_parse env arg' of
                         None \<Rightarrow>
                           (1, None,
                            ev @ [LogAdd ''Invalid FMTP subnet specification'', Call ''sa_free''])
                       | Some subnet \<Rightarrow> (0, Some (snd (sa_parse env arg), subnet), ev)))))"

text \<open>
  \<^verbatim>\<open>mls_setMcastGroupInfo(serverIface, serverPort, feed, groupAddr, mcastInfo)\<close>.
\<close>

definition mls_setMcastGroupInfo ::
  "mls_env \<Rightarrow> string \<Rightarrow> in_port_t \<Rightarrow> feedtypet \<Rightarrow> ServiceAddr \<Rightarrow> int \<times> McastInfo option" where
  "mls_setMcastGroupInfo env serverIface serverPort fd groupAddr =
     (let st = mls_setServiceAddr env
      in if 0 = st then
           (if mi_new env \<noteq> 0 then (2, None)
            else (0, Some \<lparr>feed = fd, group = groupAddr,
                           server = \<lparr>inetId = serverIface, port = serverPort\<rparr>\<rparr>))
         else (st, None))"

text \<open>
  \<^verbatim>\<open>mls_decodeCommandLine\<close>, with the initial values of \<^verbatim>\<open>main\<close> for the time-to-live
  and the retransmission timeout. The result is the status, the multicast information
  if it was set, the settings and the events.
\<close>

definition mls_decodeCommandLine ::
  "mls_env \<Rightarrow> int \<times> McastInfo option \<times> settings \<times> event list" where
  "mls_decodeCommandLine env =
     (case mls_decodeOptions env (options env)
             \<lparr>s_feed = EXP env, s_serverIface = ''0.0.0.0'', s_serverPort = 0, s_ttl = 1,
              s_ifaceAddr = ''0.0.0.0'', s_retxTimeout = None, s_pqfname = None\<rparr> of
        (st, sets, ev) \<Rightarrow>
          if 0 \<noteq> st then (st, None, sets, ev)
          else
            (case mls_decodeOperands env (operands env) of
               (st', Some (groupAddr, subnet), ev') \<Rightarrow>
                 if 0 \<noteq> st' then (st', None, sets, ev @ ev')
                 else
                   (case mls_setMcastGroupInfo env (s_serverIface sets) (s_serverPort sets)
                           (s_feed sets) groupAddr of
                      (st'', mi) \<Rightarrow> (st'', mi, sets, ev @ ev' @ [Call ''sa_free'']))
             | (st', None, ev') \<Rightarrow> (st', None, sets, ev @ ev')))"

text \<open>
  \<^verbatim>\<open>main(argc, argv)\<close>. The status that it returns is the exit status of the
  process.
\<close>

definition main :: "mls_env \<Rightarrow> outcome" where
  "main env =
     (case mls_decodeCommandLine env of
        (st, groupInfo, sets, ev) \<Rightarrow>
          if st \<noteq> 0 then
            Returned st
              (Call ''log_init'' # ev @ [LogAdd ''Could not decode command-line'']
               @ (if 1 = st then [LogAdd ''Usage''] else [])
               @ [LogFlush LOG_ERROR, Call ''log_fini''])
          else
            (case groupInfo of
               None \<Rightarrow> Undefined
             | Some i \<Rightarrow>
                 (case mls_execute env i of
                    Undefined \<Rightarrow> Undefined
                  | Aborted ev' \<Rightarrow>
                      Aborted (Call ''log_init'' # ev @ [Call ''mls_setSignalHandling''] @ ev')
                  | Returned st' ev' \<Rightarrow>
                      Returned
                        (if st' \<noteq> 0 then
                           (if st' = ldm7 env LDM7_INVAL then 1
                            else if st' = ldm7 env LDM7_PQ then 3
                            else if st' = ldm7 env LDM7_MCAST then 4
                            else 2)
                         else st')
                        (Call ''log_init'' # ev @ [Call ''mls_setSignalHandling''] @ ev'
                         @ (if st' \<noteq> 0
                            then [Log LOG_ERROR ''Could not execute multicast LDM sender'']
                            else [])
                         @ [Call ''cidrAddr_delete'', Call ''mi_free'',
                            Log LOG_NOTICE ''Terminating'', Call ''log_fini'']))))"

text \<open>
  The lines written to the standard output, in order: those of the calls of \<^verbatim>\<open>printf\<close>
  that succeeded.
\<close>

definition printed :: "event list \<Rightarrow> string list" where
  "printed tr = [l. Printf l True \<leftarrow> tr]"

section \<open>A small scenario\<close>

text \<open>
  Five products \<open>Pn 0\<close> to \<open>Pn 4\<close> of feed 1, stored one second apart, with signatures
  \<open>sig_of 0\<close> to \<open>sig_of 4\<close>; a session subscribed to feed 1 whose queue holds them;
  and an environment in which every call that leaves \<^verbatim>\<open>up7.c\<close> succeeds and the
  product-index map holds the indexes 0 to 4.
\<close>

definition sig_of :: "nat \<Rightarrow> signaturet" where
  "sig_of k = replicate 16 (of_nat k)"

definition Pn :: "nat \<Rightarrow> product" where
  "Pn k = \<lparr>info = \<lparr>arrival = \<lparr>tv_sec = of_nat (1000 + k), tv_usec = 0\<rparr>, signature = sig_of k,
                   prod_feedtype = 1, ident = ''product''\<rparr>,
          data = [of_nat k]\<rparr>"

definition queue5 :: pqueue where
  "queue5 = \<lparr>prods = [Pn 0, Pn 1, Pn 2, Pn 3, Pn 4], cursor = 0, io_error = False\<rparr>"

definition good_child :: child where
  "good_child = \<lparr>exec_ok = True, exec_errno = 0, line_read = ''circuit17'' @ [newline],
                 reap_status = 0, exit_status = 0\<rparr>"

definition reply1 :: SubscriptionReply where
  "reply1 = \<lparr>status = LDM7_OK,
             SubscriptionReply_u = \<lparr>mcastInfo = \<lparr>feed = 1,
                 group = \<lparr>inetId = ''224.0.0.1'', port = 38800\<rparr>,
                 server = \<lparr>inetId = ''0.0.0.0'', port = 38801\<rparr>\<rparr>,
               fmtpAddr = \<lparr>addr = 0xC0A80801, prefixLen = 21\<rparr>\<rparr>\<rparr>"

definition env1 :: up7_env where
  "env1 = \<lparr>time_now = \<lparr>tv_sec = 2000, tv_usec = 0\<rparr>,
           allowedFeeds = [1],
           description = (\<lambda>f. Some ''feed''),
           provision_child = good_child,
           remove_child = good_child,
           umm_subscribe = (\<lambda>f. (LDM7_OK, reply1)),
           umm_unsubscribe = (\<lambda>f a. LDM7_OK),
           pim_openForReading = (\<lambda>f. LDM7_OK),
           pim_close = LDM7_OK,
           pim = (\<lambda>i. if unat i < 5 then Some (sig_of (unat i)) else None),
           pim_io_error = False,
           stat_after = (\<lambda>n. RPC_TIMEDOUT),
           pq_open = Some queue5,
           atexit_ok = True,
           clnttcp_create = Some 5,
           dup_prod_class_ok = True\<rparr>"

definition subscribed1 :: up7_state where
  "subscribed1 = up7_initial\<lparr>isInitialized := True, wrkGrpName := Some ''wg'',
       localVcEndPoint := Some \<lparr>vlanId = 0, switchId = ''dummy'', portId = ''dummy''\<rparr>,
       circuitId := Some ''dummy_circuitId'', clnt := Some 5, feedtype := 1,
       downFmtpAddr := 0xC0A80801, pimIsOpen := True, pq := Some queue5,
       result := reply1, reply := True\<rparr>"

text \<open>
  A queue whose second product has the signature \<open>sig_of 1\<close> and is of feed 2, which the
  session has not been granted; the session with that queue; and a request for the
  backlog of the last hour before the product with that signature.
\<close>

definition Pb :: product where
  "Pb = (Pn 1)\<lparr>info := (info (Pn 1))\<lparr>prod_feedtype := 2\<rparr>\<rparr>"

definition queue_mixed :: pqueue where
  "queue_mixed = \<lparr>prods = [Pn 0, Pb, Pn 2], cursor = 0, io_error = False\<rparr>"

definition subscribed_mixed :: up7_state where
  "subscribed_mixed = subscribed1\<lparr>pq := Some queue_mixed\<rparr>"

definition backlog_mixed :: BacklogSpec where
  "backlog_mixed = \<lparr>afterIsSet = False, after = sig_of 0, before = sig_of 1, timeOffset = 3600\<rparr>"

text \<open>
  A session of an initialised module that has not subscribed, and a request for feed 2,
  which the environment does not allow to the host.
\<close>

definition fresh1 :: up7_state where
  "fresh1 = up7_initial\<lparr>isInitialized := True, wrkGrpName := Some ''wg'',
       localVcEndPoint := Some \<lparr>vlanId = 7, switchId = ''sw1'', portId = ''p1''\<rparr>\<rparr>"

definition request1 :: McastSubReq where
  "request1 = \<lparr>req_feed = 1, vcEnd = \<lparr>vlanId = 8, switchId = ''sw2'', portId = ''p2''\<rparr>\<rparr>"

definition request2 :: McastSubReq where
  "request2 = \<lparr>req_feed = 2, vcEnd = \<lparr>vlanId = 8, switchId = ''sw2'', portId = ''p2''\<rparr>\<rparr>"

text \<open>
  A session that has subscribed before over the circuit \<^verbatim>\<open>circuit9\<close>; an environment in
  which the multicast manager cannot start a sender; and one in which the product-index
  map cannot be opened.
\<close>

definition resub1 :: up7_state where
  "resub1 = fresh1\<lparr>circuitId := Some ''circuit9'', clnt := Some 5, feedtype := 1,
       downFmtpAddr := 0xC0A80801, pimIsOpen := True, pq := Some queue5,
       result := reply1, reply := True\<rparr>"

definition env_nosender :: up7_env where
  "env_nosender = env1\<lparr>umm_subscribe := (\<lambda>f. (LDM7_SYSTEM, reply1))\<rparr>"

definition env_nopim :: up7_env where
  "env_nopim = env1\<lparr>pim_openForReading := (\<lambda>f. LDM7_SYSTEM)\<rparr>"

text \<open>The events of a successful \<^verbatim>\<open>provision.py\<close> for \<open>request1\<close>.\<close>

definition provision_events :: "event list" where
  "provision_events =
     [Rootpriv,
      ChildCmd_execvp [''python'', ''provision.py'', ''wg'', ''sw1'', ''p1'', ''7'', ''sw2'', ''p2'', ''8''],
      Unpriv, ChildCmd_getline, ChildCmd_reap]"

text \<open>
  A sender: values for the enumerators; a command line without options; an environment
  in which every call succeeds, the FMTP TCP server listens on port 38801 and the
  command-server on port 40000; the queue yields \<open>Pn 0\<close>, then nothing for one turn, then
  \<open>Pn 1\<close>, and then a termination signal arrives.
\<close>

definition enum1 :: "Ldm7Status \<Rightarrow> int" where
  "enum1 s = (case s of LDM7_OK \<Rightarrow> 0 | LDM7_INVAL \<Rightarrow> 1 | LDM7_UNAUTH \<Rightarrow> 2 | LDM7_NOENT \<Rightarrow> 3
     | LDM7_MCAST \<Rightarrow> 4 | LDM7_PQ \<Rightarrow> 5 | LDM7_SYSTEM \<Rightarrow> 6 | LDM7_LOGIC \<Rightarrow> 7 | LDM7_DUP \<Rightarrow> 8)"

definition good_responses :: "nat \<Rightarrow> responses" where
  "good_responses k = \<lparr>next_iProd = of_nat k, om_put = 0, pim_put = 0, fmtp_send = 0,
                        sent_iProd = of_nat k\<rparr>"

definition turns1 :: "turn list" where
  "turns1 =
     [\<lparr>lock = Locked (Pn 0) [0xA0] 4096 (good_responses 0), done_set = False\<rparr>,
      \<lparr>lock = NoCall (- 1), done_set = False\<rparr>,
      \<lparr>lock = Locked (Pn 1) [0xA1] 8192 (good_responses 1), done_set = True\<rparr>]"

definition group1 :: ServiceAddr where
  "group1 = \<lparr>inetId = ''224.0.0.1'', port = 38800\<rparr>"

definition sender1 :: mls_env where
  "sender1 =
     \<lparr>ldm7 = enum1, PQUEUE_END = - 1, EXP = 0x80000000, log_is_enabled_info = False,
      turns = turns1, dup_prod_class_ok' = True,
      inAddrPool_new_ok = True, auth_new_ok = True, mldmSrvr_new_ok = True,
      pthread_create = 0, mldmSrvr_getPort = 40000, pthread_cancel = 0, pthread_join = 0,
      getDottedDecimal = (\<lambda>s. 0), om_new_ok = True, pq_open' = 0, pim_openForWriting = 0,
      pim_getNextProdIndex = 0, mi_copy = 0, fmtpSender_create = (0, 38801),
      fmtpSender_terminate = 0, printf_ok = True, fflush = 0, NDEBUG = False,
      om_get = (\<lambda>i. None), pq_release = (\<lambda>off. 0),
      options = [], operands = [''224.0.0.1:38800'', ''192.168.8.0/21''],
      strfeedtypet = (\<lambda>s. None), scan_port = (\<lambda>s. None), scan_float = (\<lambda>s. False),
      scan_ttl = (\<lambda>s. None), sa_parse = (\<lambda>s. (0, group1)),
      cidrAddr_parse = (\<lambda>s. Some \<lparr>addr = 0xC0A80800, prefixLen = 21\<rparr>),
      sa_new = 0, mi_new = 0\<rparr>"

definition info1 :: McastInfo where
  "info1 = \<lparr>feed = 0x80000000, group = group1, server = \<lparr>inetId = ''0.0.0.0'', port = 0\<rparr>\<rparr>"

text \<open>
  The same sender started with a first operand that \<^verbatim>\<open>sa_parse\<close> rejects as an invalid
  specification.
\<close>

definition sender_badgroup :: mls_env where
  "sender_badgroup =
     sender1\<lparr>operands := [''224.0.0.1'', ''192.168.8.0/21''],
             sa_parse := (\<lambda>s. (EINVAL, group1))\<rparr>"

text \<open>The same sender where \<^verbatim>\<open>auth_new\<close> fails, for want of memory.\<close>

definition sender_noauth :: mls_env where
  "sender_noauth = sender1\<lparr>auth_new_ok := False\<rparr>"
section \<open>Properties\<close>

subsection \<open>Facts of the scenario\<close>

lemma sig_of_inj5 [simp]: "i < 5 \<Longrightarrow> j < 5 \<Longrightarrow> (sig_of i = sig_of j) = (i = j)"
proof -
  assume "i < 5" and "j < 5"
  then have "((of_nat i :: 8 word) = of_nat j) = (i = j)"
    by (simp add: word_of_nat_eq_iff take_bit_nat_eq_self)
  then show ?thesis by (simp add: sig_of_def replicate_eq_replicate)
qed

lemma dec_7: "dec 7 = ''7''" and dec_8: "dec 8 = ''8''"
  by (simp_all add: dec.simps digit_char_def)

lemma reduce_request1: "up7_reduceToAllowed env1 (req_feed request1) = (1, [])"
  by (simp add: up7_reduceToAllowed_def lcf_reduceByFeeds_def env1_def request1_def maxFeeds_def)

lemma provision_request1:
  assumes "provision_child env = good_child" and "description env 1 = Some d"
    and "wrkGrpName s = Some ''wg''"
    and "localVcEndPoint s = Some \<lparr>vlanId = 7, switchId = ''sw1'', portId = ''p1''\<rparr>"
  shows "up7_createVirtCirc env s 1 (Some (vcEnd request1)) =
           (LDM7_OK, s\<lparr>circuitId := Some ''circuit17''\<rparr>, provision_events)"
  using assms
  by (simp add: up7_createVirtCirc_def oess_provision_def request1_def isDummyEnd_def
      strncmp_eq_def good_child_def python_def newline_def dec_7 dec_8 provision_events_def)

lemma subscribe_resub1:
  "up7_subscribe env_nosender resub1 request1 reply1 =
     (False, reply1, resub1\<lparr>circuitId := None\<rparr>,
      provision_events
      @ [Umm_subscribe 1, LogAdd ''Could not subscribe host to feed'',
         ChildCmd_execvp [''python'', ''remove.py'', ''wg'', ''circuit17''], ChildCmd_reap])"
proof -
  have r: "up7_reduceToAllowed env_nosender (req_feed request1) = (1, [])"
    using reduce_request1 by (simp add: up7_reduceToAllowed_def env_nosender_def)
  have p: "up7_createVirtCirc env_nosender resub1 1 (Some (vcEnd request1)) =
           (LDM7_OK, resub1\<lparr>circuitId := Some ''circuit17''\<rparr>, provision_events)"
    by (rule provision_request1)
       (simp_all add: env_nosender_def env1_def resub1_def fresh1_def)
  have u: "umm_subscribe env_nosender 1 = (LDM7_SYSTEM, reply1)"
    by (simp add: env_nosender_def)
  have w: "wrkGrpName resub1 = Some ''wg''" "remove_child env_nosender = good_child"
    by (simp_all add: resub1_def fresh1_def env_nosender_def env1_def)
  have d: "up7_destroyVirtCirc env_nosender (resub1\<lparr>circuitId := Some ''circuit17''\<rparr>) =
             (resub1\<lparr>circuitId := None\<rparr>,
              [ChildCmd_execvp [''python'', ''remove.py'', ''wg'', ''circuit17''], ChildCmd_reap])"
    by (simp add: up7_destroyVirtCirc_def oess_remove_def strncmp_eq_def w good_child_def
        python_def)
  show ?thesis
    by (simp add: up7_subscribe_def r p u d NONE_def)
qed

lemma loop_turns1:
  "multicast_loop sender1 turns1 =
     (0, [Pq_sequenceLock, Fmtp_getNextProdIndex 0, Om_put 0 4096, Pim_put 0 (sig_of 0),
          Fmtp_send 0 (sig_of 0) [0xA0],
          Pq_sequenceLock, BlockTermSigs, Pq_suspendAndUnblock 30, UnblockTermSigs,
          Pq_sequenceLock, Fmtp_getNextProdIndex 1, Om_put 1 8192, Pim_put 1 (sig_of 1),
          Fmtp_send 1 (sig_of 1) [0xA1]])"
  by (simp add: turns1_def mls_tryMulticast_def mls_multicastProduct_def sender1_def
      good_responses_def Pn_def)

lemma constants_ok_sender1: "constants_ok sender1"
proof -
  have "inj enum1"
    by (rule injI) (simp add: enum1_def split: Ldm7Status.splits)
  moreover have "\<forall>s. 0 \<le> enum1 s"
    by (simp add: enum1_def split: Ldm7Status.splits)
  ultimately show ?thesis
    by (simp add: constants_ok_def sender1_def enum1_def)
qed

lemma startAuthorization_sender1: "\<exists>ev. startAuthorization sender1 = Returned 0 ev"
  by (simp add: startAuthorization_def sender1_def enum1_def)

lemma mls_init_sender1:
  "\<exists>ev. mls_init sender1 info1 = (0, info1\<lparr>server := (server info1)\<lparr>port := 38801\<rparr>\<rparr>, ev)"
  by (simp add: mls_init_def mls_getIpv4Addr_def sender1_def)

lemma mls_startMulticasting_sender1: "\<exists>ev. mls_startMulticasting sender1 = (0, ev)"
proof -
  have "turns sender1 = turns1" "dup_prod_class_ok' sender1"
    by (simp_all add: sender1_def)
  then show ?thesis
    by (simp add: mls_startMulticasting_def loop_turns1)
qed

lemma mls_destroy_sender1: "\<exists>ev. mls_destroy sender1 = (0, ev)"
  by (simp add: mls_destroy_def sender1_def)

lemma mls_execute_sender1: "\<exists>tr. mls_execute sender1 info1 = Returned 0 tr"
proof -
  from startAuthorization_sender1 obtain ev1 where a: "startAuthorization sender1 = Returned 0 ev1" ..
  from mls_init_sender1 obtain ev2 where
    b: "mls_init sender1 info1 = (0, info1\<lparr>server := (server info1)\<lparr>port := 38801\<rparr>\<rparr>, ev2)" ..
  from mls_startMulticasting_sender1 obtain ev3 where c: "mls_startMulticasting sender1 = (0, ev3)" ..
  from mls_destroy_sender1 obtain ev4 where d: "mls_destroy sender1 = (0, ev4)" ..
  have e: "printf_ok sender1" "\<not> NDEBUG sender1" "fflush sender1 = 0"
    by (simp_all add: sender1_def)
  show ?thesis
    by (simp add: mls_execute_def a b c d e EOF_def)
qed

lemma port_line_sender1: "port_line 38801 40000 = ''38801 40000'' @ [newline]"
  by (simp add: port_line_def dec.simps digit_char_def)

subsection \<open>The cursor time\<close>

lemma sint_ucast_32_64: "sint (ucast (w :: 32 word) :: 64 word) = uint w"
proof -
  have "uint w < 2 ^ 32" using uint_bounded [of w] by simp
  then have "uint w < 2 ^ 63" by simp
  moreover have "- (2 ^ 63) \<le> uint w"
    by (rule order_trans [of _ 0]) simp_all
  ultimately show ?thesis
    by (simp add: sint_uint signed_take_bit_int_eq_self_iff unsigned_ucast_eq take_bit_int_eq_self)
qed

lemma sint_sub_offset:
  assumes "uint (offset :: 32 word) < sint (s :: 64 word)"
  shows "sint (s - ucast offset) = sint s - uint offset"
proof -
  have b: "sint s < 2 ^ 63" using sint_lt [of s] by simp
  have o: "0 \<le> uint offset" by simp
  have "sint (s - ucast offset) = signed_take_bit 63 (sint s - uint offset)"
    by (simp add: sint_word_ariths sint_ucast_32_64)
  also have "\<dots> = sint s - uint offset"
  proof -
    have "sint s - uint offset \<le> sint s" using o by simp
    then have "sint s - uint offset < 2 ^ 63" using b by (rule le_less_trans)
    moreover have "0 \<le> sint s - uint offset" using assms by simp
    then have "- (2 ^ 63) \<le> sint s - uint offset"
      by (rule order_trans [rotated]) simp
    ultimately show ?thesis by (simp add: signed_take_bit_int_eq_self_iff)
  qed
  finally show ?thesis .
qed

lemma cursorTimeFromOffset_sec:
  "sint (tv_sec (cursorTimeFromOffset t offset)) =
     (if sint (tv_sec t) \<le> uint offset then 0 else sint (tv_sec t) - uint offset)"
  using sint_sub_offset [of offset "tv_sec t"]
  by (auto simp: cursorTimeFromOffset_def)

text \<open>
  C10. \<^verbatim>\<open>up7_setCursorFromTimeOffset\<close> gives \<^verbatim>\<open>pq_cset\<close> one time. Whenever the time
  offset of the backlog request is at least the current time in seconds, the seconds of
  that time are zero; for a smaller offset they are exactly the current seconds minus the
  offset. In both cases they are not negative, so no wrapped-around time is ever
  computed; the microseconds are those of the current time.
\<close>

theorem up7_setCursorFromTimeOffset_clamps:
  "\<exists>ts. up7_setCursorFromTimeOffset env q offset = (pq_cset q ts, [Pq_cset ts])
        \<and> sint (tv_sec ts) =
            (if sint (tv_sec (time_now env)) \<le> uint offset then 0
             else sint (tv_sec (time_now env)) - uint offset)
        \<and> 0 \<le> sint (tv_sec ts)
        \<and> tv_usec ts = tv_usec (time_now env)"
proof -
  let ?ts = "cursorTimeFromOffset (time_now env) offset"
  have "up7_setCursorFromTimeOffset env q offset = (pq_cset q ?ts, [Pq_cset ?ts])"
    by (simp add: up7_setCursorFromTimeOffset_def Let_def)
  moreover have "0 \<le> sint (tv_sec ?ts)"
    by (simp add: cursorTimeFromOffset_sec)
  moreover have "tv_usec ?ts = tv_usec (time_now env)"
    by (simp add: cursorTimeFromOffset_def)
  ultimately show ?thesis
    using cursorTimeFromOffset_sec [of "time_now env" offset] by blast
qed

subsection \<open>Dummy virtual circuits\<close>

lemma strncmp_eq_prefix: "strncmp_eq s p (length p) = prefix p s"
  by (auto simp: strncmp_eq_def prefix_def take_is_prefix intro: append_eq_conv_conj [THEN iffD1]
      dest: sym) (metis append_take_drop_id)

lemma strncmp_dummy: "strncmp_eq s ''dummy'' 5 = prefix ''dummy'' s"
proof -
  have "length ''dummy'' = 5" by simp
  then show ?thesis using strncmp_eq_prefix [of s "''dummy''"] by (simp only:)
qed

text \<open>
  C4. When a switch or port identifier of either end-point begins with \<^verbatim>\<open>dummy\<close>,
  \<^verbatim>\<open>oess_provision\<close> succeeds with the circuit identifier \<^verbatim>\<open>dummy_circuitId\<close> and executes
  no child command, whatever the other arguments and whatever a child command would do;
  and \<^verbatim>\<open>oess_remove\<close> of that circuit identifier executes no child command either.
\<close>

theorem oess_dummy_never_spawns:
  assumes "(end1 = Some e \<or> end2 = Some e)"
    and "prefix ''dummy'' (switchId e) \<or> prefix ''dummy'' (portId e)"
  shows "\<exists>tr. oess_provision ch wrkGrp desc end1 end2 = (LDM7_OK, Some ''dummy_circuitId'', tr)
           \<and> spawns tr = []
           \<and> spawns (oess_remove ch' wrkGrp' ''dummy_circuitId'') = []"
proof -
  from assms have "isDummyEnd end1 \<or> isDummyEnd end2"
    by (auto simp: isDummyEnd_def strncmp_dummy)
  then show ?thesis
    by (simp add: oess_provision_def oess_remove_def spawns_def strncmp_eq_def)
qed

theorem oess_dummy_never_spawns_witness:
  "\<exists>tr. oess_provision \<lparr>exec_ok = True, exec_errno = 0, line_read = ''c17'' @ [newline],
                          reap_status = 0, exit_status = 0\<rparr>
           (Some ''wg'') (Some ''EXP feed'')
           (Some \<lparr>vlanId = 7, switchId = ''sw1'', portId = ''p1''\<rparr>)
           (Some \<lparr>vlanId = 0, switchId = ''dummy'', portId = ''dummy''\<rparr>)
         = (LDM7_OK, Some ''dummy_circuitId'', tr)
       \<and> spawns tr = []
       \<and> spawns (oess_remove \<lparr>exec_ok = True, exec_errno = 0, line_read = [],
                          reap_status = 0, exit_status = 0\<rparr> (Some ''wg'') ''dummy_circuitId'') = []"
  by (rule oess_dummy_never_spawns
        [where e = "\<lparr>vlanId = 0, switchId = ''dummy'', portId = ''dummy''\<rparr>"]) simp_all

subsection \<open>Requests on a session that has not subscribed\<close>

text \<open>
  C9. While no client-side transport exists, a request for a product and a request for
  the backlog both do nothing but log: no one-way message and no RPC error reply is
  sent, nothing of the state changes but the flag \<^verbatim>\<open>isDone\<close>, which is set, so that
  \<^verbatim>\<open>up7_isDone()\<close> tells the caller to close the session.
\<close>

theorem request_without_subscription_ends_session:
  assumes "clnt s = None"
  shows "request_product_7_svc env s iProd =
           Some (s\<lparr>isDone := True\<rparr>,
                 [Log LOG_DEBUG ''Entered'', Log LOG_ERROR ''Client has not subscribed yet''])
       \<and> request_backlog_7_svc env s backlog =
           Some (s\<lparr>isDone := True\<rparr>,
                 [Log LOG_DEBUG ''Entered'', Log LOG_ERROR ''Client has not subscribed yet''])
       \<and> rpcs [Log LOG_DEBUG ''Entered'', Log LOG_ERROR ''Client has not subscribed yet''] = []
       \<and> up7_isDone (s\<lparr>isDone := True\<rparr>)"
  using assms
  by (simp add: request_product_7_svc_def request_backlog_7_svc_def rpcs_def up7_isDone_def)

theorem request_without_subscription_ends_session_witness:
  "clnt up7_initial = None
   \<and> request_product_7_svc env1 up7_initial 42 =
       Some (up7_initial\<lparr>isDone := True\<rparr>,
             [Log LOG_DEBUG ''Entered'', Log LOG_ERROR ''Client has not subscribed yet''])
   \<and> request_backlog_7_svc env1 up7_initial
         \<lparr>afterIsSet = True, after = sig_of 0, before = sig_of 3, timeOffset = 3600\<rparr> =
       Some (up7_initial\<lparr>isDone := True\<rparr>,
             [Log LOG_DEBUG ''Entered'', Log LOG_ERROR ''Client has not subscribed yet''])"
proof -
  have h: "clnt up7_initial = None" by (simp add: up7_initial_def)
  show ?thesis
    using h request_without_subscription_ends_session [OF h, of env1 42
        "\<lparr>afterIsSet = True, after = sig_of 0, before = sig_of 3, timeOffset = 3600\<rparr>"]
    by simp
qed

subsection \<open>A request for a missed product\<close>

lemma rpcs_append [simp]: "rpcs (xs @ ys) = rpcs xs @ rpcs ys"
  by (simp add: rpcs_def)

lemma rpcs_Cons_Rpc [simp]: "rpcs (Rpc n # xs) = n # rpcs xs"
  by (simp add: rpcs_def)

lemma rpcs_Nil [simp]: "rpcs [] = []"
  by (simp add: rpcs_def)

lemma rpcs_Cons_other [simp]:
  "rpcs (Log l m # xs) = rpcs xs"
  "rpcs (LogAdd m # xs) = rpcs xs"
  "rpcs (LogFlush l # xs) = rpcs xs"
  "rpcs (Pim_get i # xs) = rpcs xs"
  "rpcs (Pq_processProduct sg # xs) = rpcs xs"
  "rpcs (Pq_setCursorFromSignature sg # xs) = rpcs xs"
  "rpcs (Pq_cset ts # xs) = rpcs xs"
  "rpcs (Pq_sequence # xs) = rpcs xs"
  "rpcs (Clnt_destroy # xs) = rpcs xs"
  by (simp_all add: rpcs_def)

lemma rpcs_up7_destroyClient: "up7_destroyClient s = (s', ev) \<Longrightarrow> rpcs ev = []"
  by (auto simp: up7_destroyClient_def split: option.splits)

lemma rpcs_up7_deliverProduct:
  "up7_deliverProduct env i d iProd = (st, ev)
     \<Longrightarrow> rpcs ev = [MissedProduct iProd \<lparr>info = i, data = d\<rparr>]"
  by (auto simp: up7_deliverProduct_def Let_def split: if_splits)

text \<open>
  C2. On a subscribed session whose product-index map and product-queue can be read, a
  request for the product with index \<open>iProd\<close> sends exactly one one-way message: the
  missed product, if the map holds a signature for the index and the queue holds a
  product with that signature; otherwise (the index is unknown to the map, or no product
  of the queue has the signature) the notice that there is no such product, and no
  missed product.
\<close>

theorem request_product_sends_one_message:
  assumes "clnt s = Some c" and "pq s = Some q" and "\<not> io_error q" and "\<not> pim_io_error env"
  shows "\<exists>s' tr. request_product_7_svc env s iProd = Some (s', tr)
           \<and> rpcs tr =
               (case pim env iProd of
                  None \<Rightarrow> [NoSuchProduct iProd]
                | Some sig \<Rightarrow>
                    (case find (\<lambda>p. signature (info p) = sig) (prods q) of
                       None \<Rightarrow> [NoSuchProduct iProd]
                     | Some p \<Rightarrow> [MissedProduct iProd p]))"
proof (cases "pim env iProd")
  case None
  with assms show ?thesis
    by (auto simp: request_product_7_svc_def up7_findAndSendProduct_def up7_sendProduct_def
        pim_get_def dest: rpcs_up7_destroyClient split: prod.splits)
next
  case (Some sig)
  show ?thesis
  proof (cases "find (\<lambda>p. signature (info p) = sig) (prods q)")
    case None
    with Some assms show ?thesis
      by (auto simp: request_product_7_svc_def up7_findAndSendProduct_def up7_sendProduct_def
          pim_get_def pq_processProduct_def dest: rpcs_up7_destroyClient split: prod.splits)
  next
    case found: (Some p)
    obtain st ev where d: "up7_deliverProduct env (info p) (data p) iProd = (st, ev)"
      by (cases "up7_deliverProduct env (info p) (data p) iProd")
    then have r: "rpcs ev = [MissedProduct iProd p]"
      using rpcs_up7_deliverProduct [OF d] by simp
    from d have nn: "st = LDM7_OK \<or> st = LDM7_SYSTEM"
      by (auto simp: up7_deliverProduct_def Let_def split: if_splits)
    with Some found assms d r show ?thesis
      by (auto simp: request_product_7_svc_def up7_findAndSendProduct_def up7_sendProduct_def
          pim_get_def pq_processProduct_def dest: rpcs_up7_destroyClient split: prod.splits)
  qed
qed

theorem request_product_sends_one_message_witness:
  "clnt subscribed1 = Some 5 \<and> pq subscribed1 = Some queue5 \<and> \<not> io_error queue5
   \<and> \<not> pim_io_error env1
   \<and> (\<exists>s' tr. request_product_7_svc env1 subscribed1 0 = Some (s', tr)
          \<and> rpcs tr = [MissedProduct 0 (Pn 0)])
   \<and> (\<exists>s' tr. request_product_7_svc env1 subscribed1 42 = Some (s', tr)
          \<and> rpcs tr = [NoSuchProduct 42])"
proof -
  have h: "clnt subscribed1 = Some 5" "pq subscribed1 = Some queue5" "\<not> io_error queue5"
    "\<not> pim_io_error env1"
    by (simp_all add: subscribed1_def up7_initial_def queue5_def env1_def)
  have m: "pim env1 0 = Some (sig_of 0)" "pim env1 42 = None"
    by (simp_all add: env1_def)
  have f: "find (\<lambda>p. signature (info p) = sig_of 0) (prods queue5) = Some (Pn 0)"
    by (simp add: queue5_def Pn_def)
  show ?thesis
    using h request_product_sends_one_message [OF h, of 0]
      request_product_sends_one_message [OF h, of 42] m f
    by simp
qed

subsection \<open>A request for the backlog\<close>

lemma loop_characterised:
  assumes "\<not> io_error q" and "\<forall>n. stat_after env n = RPC_TIMEDOUT"
  shows "case sendUpToSignature_loop env ft sig q of
           (st, q', ev) \<Rightarrow>
             rpcs ev = map BacklogProduct (takeWhile (\<lambda>p. signature (info p) \<noteq> sig)
                 (filter (\<lambda>p. prodInClass ft (info p)) (drop (cursor q) (prods q))))
             \<and> prods q' = prods q \<and> io_error q' = io_error q
             \<and> st = (if sig \<in> signature ` info ` set (filter (\<lambda>p. prodInClass ft (info p)) (drop (cursor q) (prods q)))
                      then LDM7_OK else LDM7_NOENT)
             \<and> (st = LDM7_NOENT \<longrightarrow>
                  Log LOG_INFO ''End-of-backlog product not found before end-of-queue'' \<in> set ev)"
  using assms
proof (induction env ft sig q rule: sendUpToSignature_loop.induct)
  case (1 env ft sig q)
  show ?case
  proof (cases "cursor q < length (prods q)")
    case False
    with 1(3) show ?thesis
      by (simp add: sendUpToSignature_loop.simps [of env ft sig q] pq_sequence_def)
  next
    case True
    let ?p = "prods q ! cursor q"
    let ?q' = "q\<lparr>cursor := Suc (cursor q)\<rparr>"
    have dr: "drop (cursor q) (prods q) = ?p # drop (cursor ?q') (prods ?q')"
      using True by (simp add: Cons_nth_drop_Suc)
    show ?thesis
    proof (cases "prodInClass ft (info ?p)")
      case False
      have sq: "pq_sequence q ft = (SEQ_SKIPPED, ?q')"
        using True False 1(3) by (simp add: pq_sequence_def Let_def)
      have ih: "case sendUpToSignature_loop env ft sig ?q' of
           (st, q', ev) \<Rightarrow>
             rpcs ev = map BacklogProduct (takeWhile (\<lambda>p. signature (info p) \<noteq> sig)
                 (filter (\<lambda>p. prodInClass ft (info p)) (drop (cursor ?q') (prods ?q'))))
             \<and> prods q' = prods ?q' \<and> io_error q' = io_error ?q'
             \<and> st = (if sig \<in> signature ` info ` set (filter (\<lambda>p. prodInClass ft (info p)) (drop (cursor ?q') (prods ?q')))
                      then LDM7_OK else LDM7_NOENT)
             \<and> (st = LDM7_NOENT \<longrightarrow>
                  Log LOG_INFO ''End-of-backlog product not found before end-of-queue'' \<in> set ev)"
        using 1(1) [OF sq [symmetric] refl] 1(3,4) by simp
      then show ?thesis
        using False
        by (simp add: sendUpToSignature_loop.simps [of env ft sig q] sq dr
            split: prod.splits)
    next
      case inClass: True
      have sq: "pq_sequence q ft = (SEQ_MATCH ?p, ?q')"
        using True inClass 1(3) by (simp add: pq_sequence_def Let_def)
      show ?thesis
      proof (cases "signature (info ?p) = sig")
        case True
        then show ?thesis
          using inClass
          by (simp add: sendUpToSignature_loop.simps [of env ft sig q] sq dr
              up7_sendIfNotSignature_def)
      next
        case False
        have cb: "up7_sendIfNotSignature env (info ?p) (data ?p) sig =
                    (CB_OK, [Rpc (BacklogProduct ?p), Log LOG_NOTICE ''Backlog product sent''])"
          using False 1(4) by (simp add: up7_sendIfNotSignature_def Let_def)
        have ih: "case sendUpToSignature_loop env ft sig ?q' of
           (st, q', ev) \<Rightarrow>
             rpcs ev = map BacklogProduct (takeWhile (\<lambda>p. signature (info p) \<noteq> sig)
                 (filter (\<lambda>p. prodInClass ft (info p)) (drop (cursor ?q') (prods ?q'))))
             \<and> prods q' = prods ?q' \<and> io_error q' = io_error ?q'
             \<and> st = (if sig \<in> signature ` info ` set (filter (\<lambda>p. prodInClass ft (info p)) (drop (cursor ?q') (prods ?q')))
                      then LDM7_OK else LDM7_NOENT)
             \<and> (st = LDM7_NOENT \<longrightarrow>
                  Log LOG_INFO ''End-of-backlog product not found before end-of-queue'' \<in> set ev)"
          using 1(2) [OF sq [symmetric] refl cb [symmetric] refl] 1(3,4) by simp
        then show ?thesis
          using False inClass
          by (auto simp add: sendUpToSignature_loop.simps [of env ft sig q] sq cb dr
              split: prod.splits)
      qed
    qed
  qed
qed

lemma setProductQueueCursor_ok:
  assumes "\<not> io_error q"
  shows "\<exists>q0 ev0. up7_setProductQueueCursor env q backlog = (True, q0, ev0)
           \<and> \<not> io_error q0 \<and> prods q0 = prods q \<and> rpcs ev0 = []"
  using assms
  by (auto simp: up7_setProductQueueCursor_def up7_setCursorFromSignature_def
      pq_setCursorFromSignature_def up7_setCursorFromTimeOffset_def pq_cset_def Let_def)

text \<open>
  What a request for the backlog does on a subscribed session whose product-queue can be
  read and whose one-way messages all go out. It positions the cursor and then sends, as
  backlog products and in store order, the products from the cursor on that match the
  feed of the subscription, up to but not including the first of these matching products
  whose signature is \<open>before\<close>: \<^verbatim>\<open>pq_sequence\<close> calls \<^verbatim>\<open>up7_sendIfNotSignature\<close>, which
  compares the signatures, for the products of the class only. Nothing else is sent. If
  no matching product has that signature, the end of the queue is logged at level INFO.
  In both cases the request is no failure: of the state only the queue (its cursor)
  changes, so the client transport stays and \<^verbatim>\<open>isDone\<close> is not set.
\<close>

lemma request_backlog_sends_class_upto_before:
  assumes "clnt s = Some c" and "pq s = Some q" and "\<not> io_error q"
    and "dup_prod_class_ok env" and "\<forall>n. stat_after env n = RPC_TIMEDOUT"
  shows "\<exists>q0 ev0 q1 tr.
           up7_setProductQueueCursor env q backlog = (True, q0, ev0)
           \<and> prods q0 = prods q
           \<and> request_backlog_7_svc env s backlog = Some (s\<lparr>pq := Some q1\<rparr>, tr)
           \<and> rpcs tr = map BacklogProduct
                 (takeWhile (\<lambda>p. signature (info p) \<noteq> before backlog)
                    (filter (\<lambda>p. prodInClass (feedtype s) (info p))
                       (drop (cursor q0) (prods q0))))
           \<and> (before backlog \<notin> set (map (\<lambda>p. signature (info p))
                     (filter (\<lambda>p. prodInClass (feedtype s) (info p)) (drop (cursor q0) (prods q0))))
                \<longrightarrow> Log LOG_INFO ''End-of-backlog product not found before end-of-queue'' \<in> set tr)"
proof -
  obtain q0 ev0 where c: "up7_setProductQueueCursor env q backlog = (True, q0, ev0)"
    and q0: "\<not> io_error q0" and r0: "rpcs ev0 = []" and p0: "prods q0 = prods q"
    using setProductQueueCursor_ok [OF assms(3), of env backlog] by blast
  obtain st q1 ev where l: "sendUpToSignature_loop env (feedtype s) (before backlog) q0 = (st, q1, ev)"
    by (cases "sendUpToSignature_loop env (feedtype s) (before backlog) q0")
  have ch: "rpcs ev = map BacklogProduct
                 (takeWhile (\<lambda>p. signature (info p) \<noteq> before backlog)
                    (filter (\<lambda>p. prodInClass (feedtype s) (info p))
                       (drop (cursor q0) (prods q0))))"
    "st = (if before backlog \<in> signature ` info ` set (filter (\<lambda>p. prodInClass (feedtype s) (info p)) (drop (cursor q0) (prods q0)))
           then LDM7_OK else LDM7_NOENT)"
    "st = LDM7_NOENT \<longrightarrow>
       Log LOG_INFO ''End-of-backlog product not found before end-of-queue'' \<in> set ev"
    using loop_characterised [OF q0 assms(5), where ft = "feedtype s" and sig = "before backlog"] l
    by simp_all
  have st: "st \<noteq> LDM7_SYSTEM" using ch(2) by (simp split: if_splits)
  have svc: "request_backlog_7_svc env s backlog =
               Some (s\<lparr>pq := Some q1\<rparr>, [Log LOG_DEBUG ''Entered''] @ ev0 @ ev)"
    using assms(1,2,4) c l st
    by (simp add: request_backlog_7_svc_def up7_sendBacklog_def up7_sendUpToSignature_def)
  have "before backlog \<notin> set (map (\<lambda>p. signature (info p))
                     (filter (\<lambda>p. prodInClass (feedtype s) (info p)) (drop (cursor q0) (prods q0))))
          \<longrightarrow> st = LDM7_NOENT"
    using ch(2) by (auto simp: image_iff)
  with c svc ch(1,3) r0 p0 show ?thesis by auto
qed

lemma takeWhile_filter_commute:
  "\<forall>x \<in> set xs. \<not> F x \<longrightarrow> G x \<Longrightarrow> takeWhile F (filter G xs) = filter G (takeWhile F xs)"
  by (induction xs) auto

text \<open>
  Where every product of the queue that has the signature \<open>before\<close> matches the feed of
  the subscription, this is the backlog of the specification.
\<close>

lemma request_backlog_meets_spec:
  assumes "clnt s = Some c" and "pq s = Some q" and "\<not> io_error q"
    and "dup_prod_class_ok env" and "\<forall>n. stat_after env n = RPC_TIMEDOUT"
    and "\<forall>p \<in> set (prods q).
           signature (info p) = before backlog \<longrightarrow> prodInClass (feedtype s) (info p)"
  shows "\<exists>q0 ev0 q1 tr.
           up7_setProductQueueCursor env q backlog = (True, q0, ev0)
           \<and> request_backlog_7_svc env s backlog = Some (s\<lparr>pq := Some q1\<rparr>, tr)
           \<and> rpcs tr = map BacklogProduct (backlog_spec (feedtype s) (before backlog) q0)"
proof -
  from request_backlog_sends_class_upto_before [OF assms(1-5), of backlog]
  obtain q0 ev0 q1 tr where
    c: "up7_setProductQueueCursor env q backlog = (True, q0, ev0)" and p: "prods q0 = prods q"
    and r: "request_backlog_7_svc env s backlog = Some (s\<lparr>pq := Some q1\<rparr>, tr)"
    and m: "rpcs tr = map BacklogProduct
                 (takeWhile (\<lambda>p. signature (info p) \<noteq> before backlog)
                    (filter (\<lambda>p. prodInClass (feedtype s) (info p))
                       (drop (cursor q0) (prods q0))))"
    by blast
  have "\<forall>p \<in> set (drop (cursor q0) (prods q0)).
          \<not> signature (info p) \<noteq> before backlog \<longrightarrow> prodInClass (feedtype s) (info p)"
    using assms(6) p by (auto dest: in_set_dropD)
  from takeWhile_filter_commute [OF this] m
  have "rpcs tr = map BacklogProduct (backlog_spec (feedtype s) (before backlog) q0)"
    by (simp add: backlog_spec_def)
  with c r show ?thesis by blast
qed

text \<open>
  The scenario S4 of the specification: of the products \<open>Pn 0\<close> to \<open>Pn 4\<close>, the backlog
  after \<open>sig_of 0\<close> and before \<open>sig_of 3\<close> is \<open>Pn 1\<close> and \<open>Pn 2\<close>, in that order.
\<close>

lemma request_backlog_S4:
  "\<exists>s' tr. request_backlog_7_svc env1 subscribed1
              \<lparr>afterIsSet = True, after = sig_of 0, before = sig_of 3, timeOffset = 3600\<rparr>
            = Some (s', tr)
          \<and> rpcs tr = [BacklogProduct (Pn 1), BacklogProduct (Pn 2)]"
proof -
  let ?b = "\<lparr>afterIsSet = True, after = sig_of 0, before = sig_of 3, timeOffset = 3600\<rparr>"
  have h: "clnt subscribed1 = Some 5" "pq subscribed1 = Some queue5" "\<not> io_error queue5"
    "dup_prod_class_ok env1" "\<forall>n. stat_after env1 n = RPC_TIMEDOUT"
    by (simp_all add: subscribed1_def up7_initial_def queue5_def env1_def)
  have c: "up7_setProductQueueCursor env1 queue5 ?b = (True, queue5\<lparr>cursor := 1\<rparr>,
             [Pq_setCursorFromSignature (sig_of 0)])"
    by (simp add: up7_setProductQueueCursor_def up7_setCursorFromSignature_def
        pq_setCursorFromSignature_def queue5_def Pn_def)
  have f: "feedtype subscribed1 = 1"
    by (simp add: subscribed1_def)
  have u: "takeWhile (\<lambda>p. signature (info p) \<noteq> sig_of 3)
             (filter (\<lambda>p. prodInClass 1 (info p))
                (drop (cursor (queue5\<lparr>cursor := 1\<rparr>)) (prods (queue5\<lparr>cursor := 1\<rparr>))))
           = [Pn 1, Pn 2]"
    by (simp add: queue5_def prodInClass_def Pn_def)
  show ?thesis
    using request_backlog_sends_class_upto_before [OF h, of ?b] c f u by auto
qed

text \<open>
  C3 fails on the code where the product with the signature \<open>before\<close> does not match the
  feed of the subscription. \<^verbatim>\<open>pq_sequence\<close> calls \<^verbatim>\<open>up7_sendIfNotSignature\<close>, which makes
  the comparison, for the products of the class only. So the loop does not stop at that
  product: it sends the matching products up to the end of the queue and logs that the
  product was not found. Here the queue holds \<open>Pn 0\<close>, \<open>Pb\<close> and \<open>Pn 2\<close>, and \<open>Pb\<close>, of a
  feed that was not granted, has the signature \<open>before\<close>. The server sends \<open>Pn 0\<close> and
  \<open>Pn 2\<close>, where the backlog of the specification, which ends at \<open>Pb\<close>, is \<open>Pn 0\<close>
  alone.
\<close>

theorem request_backlog_passes_before_outside_feed:
  "request_backlog_7_svc env1 subscribed_mixed backlog_mixed =
     Some (subscribed_mixed\<lparr>pq := Some (queue_mixed\<lparr>cursor := 3\<rparr>)\<rparr>,
           [Log LOG_DEBUG ''Entered'', Pq_cset \<lparr>tv_sec = 0, tv_usec = 0\<rparr>,
            Pq_sequence, Rpc (BacklogProduct (Pn 0)), Log LOG_NOTICE ''Backlog product sent'',
            Pq_sequence,
            Pq_sequence, Rpc (BacklogProduct (Pn 2)), Log LOG_NOTICE ''Backlog product sent'',
            Pq_sequence,
            Log LOG_INFO ''End-of-backlog product not found before end-of-queue''])
   \<and> prods queue_mixed ! 1 = Pb \<and> signature (info Pb) = before backlog_mixed
   \<and> backlog_spec (feedtype subscribed_mixed) (before backlog_mixed) queue_mixed = [Pn 0]"
proof -
  have c: "up7_setProductQueueCursor env1 queue_mixed backlog_mixed =
             (True, queue_mixed, [Pq_cset \<lparr>tv_sec = 0, tv_usec = 0\<rparr>])"
    by (simp add: up7_setProductQueueCursor_def up7_setCursorFromTimeOffset_def
        cursorTimeFromOffset_def pq_cset_def ts_less_def backlog_mixed_def env1_def
        queue_mixed_def Pn_def Pb_def)
  have e: "stat_after env1 = (\<lambda>n. RPC_TIMEDOUT)" "dup_prod_class_ok env1"
    by (simp_all add: env1_def)
  have s3: "sendUpToSignature_loop env1 1 (sig_of 1) (queue_mixed\<lparr>cursor := 3\<rparr>) =
              (LDM7_NOENT, queue_mixed\<lparr>cursor := 3\<rparr>,
               [Pq_sequence,
                Log LOG_INFO ''End-of-backlog product not found before end-of-queue''])"
    by (subst sendUpToSignature_loop.simps)
       (simp del: One_nat_def add: Let_def pq_sequence_def queue_mixed_def)
  have s2: "sendUpToSignature_loop env1 1 (sig_of 1) (queue_mixed\<lparr>cursor := 2\<rparr>) =
              (LDM7_NOENT, queue_mixed\<lparr>cursor := 3\<rparr>,
               [Pq_sequence, Rpc (BacklogProduct (Pn 2)), Log LOG_NOTICE ''Backlog product sent'',
                Pq_sequence,
                Log LOG_INFO ''End-of-backlog product not found before end-of-queue''])"
    using s3
    by (subst sendUpToSignature_loop.simps)
       (simp del: One_nat_def add: Let_def pq_sequence_def queue_mixed_def prodInClass_def up7_sendIfNotSignature_def e Pn_def)
  have s1: "sendUpToSignature_loop env1 1 (sig_of 1) (queue_mixed\<lparr>cursor := 1\<rparr>) =
              (LDM7_NOENT, queue_mixed\<lparr>cursor := 3\<rparr>,
               [Pq_sequence,
                Pq_sequence, Rpc (BacklogProduct (Pn 2)), Log LOG_NOTICE ''Backlog product sent'',
                Pq_sequence,
                Log LOG_INFO ''End-of-backlog product not found before end-of-queue''])"
    using s2
    by (subst sendUpToSignature_loop.simps)
       (simp del: One_nat_def add: Let_def pq_sequence_def queue_mixed_def prodInClass_def Pn_def Pb_def)
  have s0: "sendUpToSignature_loop env1 1 (sig_of 1) queue_mixed =
              (LDM7_NOENT, queue_mixed\<lparr>cursor := 3\<rparr>,
               [Pq_sequence, Rpc (BacklogProduct (Pn 0)), Log LOG_NOTICE ''Backlog product sent'',
                Pq_sequence,
                Pq_sequence, Rpc (BacklogProduct (Pn 2)), Log LOG_NOTICE ''Backlog product sent'',
                Pq_sequence,
                Log LOG_INFO ''End-of-backlog product not found before end-of-queue''])"
    using s1
    by (subst sendUpToSignature_loop.simps)
       (simp add: Let_def pq_sequence_def queue_mixed_def prodInClass_def up7_sendIfNotSignature_def e Pn_def)
  have f: "feedtype subscribed_mixed = 1" "clnt subscribed_mixed = Some 5"
    "pq subscribed_mixed = Some queue_mixed" "before backlog_mixed = sig_of 1"
    by (simp_all add: subscribed_mixed_def subscribed1_def backlog_mixed_def)
  have r: "request_backlog_7_svc env1 subscribed_mixed backlog_mixed =
     Some (subscribed_mixed\<lparr>pq := Some (queue_mixed\<lparr>cursor := 3\<rparr>)\<rparr>,
           [Log LOG_DEBUG ''Entered'', Pq_cset \<lparr>tv_sec = 0, tv_usec = 0\<rparr>,
            Pq_sequence, Rpc (BacklogProduct (Pn 0)), Log LOG_NOTICE ''Backlog product sent'',
            Pq_sequence,
            Pq_sequence, Rpc (BacklogProduct (Pn 2)), Log LOG_NOTICE ''Backlog product sent'',
            Pq_sequence,
            Log LOG_INFO ''End-of-backlog product not found before end-of-queue''])"
    by (simp del: One_nat_def add: request_backlog_7_svc_def up7_sendBacklog_def up7_sendUpToSignature_def
        f c e s0)
  have b: "backlog_spec 1 (sig_of 1) queue_mixed = [Pn 0]"
    by (simp add: backlog_spec_def queue_mixed_def prodInClass_def Pn_def Pb_def)
  have p: "prods queue_mixed ! 1 = Pb" "signature (info Pb) = sig_of 1"
    by (simp_all add: queue_mixed_def Pb_def Pn_def)
  from r b p f show ?thesis by simp
qed
subsection \<open>Subscription\<close>

lemma reduce_fold_zero:
  "(fold (\<lambda>a acc. acc OR (fd AND a)) xs acc = (0 :: feedtypet))
     = (acc = 0 \<and> (\<forall>a \<in> set xs. fd AND a = 0))"
  by (induction xs arbitrary: acc) (auto simp: or_eq_0_iff)

lemma reduce_take_NONE:
  "lcf_reduceByFeeds fd xs = NONE \<Longrightarrow> lcf_reduceByFeeds fd (take n xs) = NONE"
  by (auto simp: lcf_reduceByFeeds_def NONE_def reduce_fold_zero dest: in_set_takeD)

text \<open>
  C5. When the requested feed has nothing in common with the feeds that are allowed to
  the host, \<^verbatim>\<open>up7_subscribe\<close> sets the status \<^verbatim>\<open>LDM7_UNAUTH\<close> in the reply and leaves
  the state as it was, and \<^verbatim>\<open>subscribe_7_svc\<close> returns that reply; the only events are
  log messages, so no child command is executed, the multicast manager is not asked for a
  sender or an address, and the product-index map is not opened.
\<close>

theorem empty_reduction_is_unauthorized:
  assumes "lcf_reduceByFeeds (req_feed request) (allowedFeeds env) = NONE"
  shows "\<exists>tr tr'.
           up7_subscribe env s request rep0 = (True, rep0\<lparr>status := LDM7_UNAUTH\<rparr>, s, tr)
         \<and> (\<forall>e \<in> set tr. \<exists>l m. e = Log l m)
         \<and> subscribe_7_svc env s request =
               (Some ((result s)\<lparr>status := LDM7_UNAUTH\<rparr>),
                s\<lparr>result := (result s)\<lparr>status := LDM7_UNAUTH\<rparr>, reply := True\<rparr>, tr')
         \<and> (\<forall>e \<in> set tr'. \<exists>l m. e = Log l m)"
proof -
  have r: "fst (up7_reduceToAllowed env (req_feed request)) = NONE"
    using reduce_take_NONE [OF assms] by (simp add: up7_reduceToAllowed_def Let_def)
  have l: "\<forall>e \<in> set (snd (up7_reduceToAllowed env (req_feed request))). \<exists>l m. e = Log l m"
    by (simp add: up7_reduceToAllowed_def Let_def)
  obtain rf ev0 where e: "up7_reduceToAllowed env (req_feed request) = (rf, ev0)"
    by (cases "up7_reduceToAllowed env (req_feed request)")
  with r l have rf: "rf = NONE" and l0: "\<forall>e \<in> set ev0. \<exists>l m. e = Log l m" by simp_all
  have u: "\<And>s r. up7_subscribe env s request r =
            (True, r\<lparr>status := LDM7_UNAUTH\<rparr>, s,
             ev0 @ [Log LOG_NOTICE ''Host is not allowed to receive any part of feed''])"
    using e rf by (simp add: up7_subscribe_def)
  show ?thesis
    using l0 by (auto simp: u subscribe_7_svc_def Let_def)
qed

theorem empty_reduction_is_unauthorized_witness:
  "lcf_reduceByFeeds (req_feed request2) (allowedFeeds env1) = NONE
   \<and> (\<exists>tr. subscribe_7_svc env1 fresh1 request2 =
              (Some ((result fresh1)\<lparr>status := LDM7_UNAUTH\<rparr>),
               fresh1\<lparr>result := (result fresh1)\<lparr>status := LDM7_UNAUTH\<rparr>, reply := True\<rparr>, tr)
            \<and> spawns tr = [])"
proof -
  have h: "lcf_reduceByFeeds (req_feed request2) (allowedFeeds env1) = NONE"
    by (simp add: lcf_reduceByFeeds_def request2_def env1_def NONE_def)
  from empty_reduction_is_unauthorized [OF h, of fresh1 "result fresh1"]
  obtain tr' where t: "subscribe_7_svc env1 fresh1 request2 =
              (Some ((result fresh1)\<lparr>status := LDM7_UNAUTH\<rparr>),
               fresh1\<lparr>result := (result fresh1)\<lparr>status := LDM7_UNAUTH\<rparr>, reply := True\<rparr>, tr')"
    and l: "\<forall>e \<in> set tr'. \<exists>l m. e = Log l m"
    by blast
  from l have "spawns tr' = []"
    by (auto simp: spawns_def filter_empty_conv)
  with h t show ?thesis by blast
qed

text \<open>
  C6 (as amended). Take a subscription whose feed is not reduced to nothing and whose
  virtual circuit was created, and which then fails: either the multicast manager does
  not return a sender with a reserved address, or the product-index map cannot be opened.
  Then what was done is undone in reverse order: if an address was reserved it is
  released with \<^verbatim>\<open>umm_unsubscribe\<close>, and after that the circuit just created is removed
  with \<^verbatim>\<open>oess_remove\<close>. The state afterwards is the state before the request with no
  circuit identifier; it is the state before the request if that held no circuit
  identifier.
\<close>

theorem subscribe_failure_undoes_in_reverse:
  assumes red: "up7_reduceToAllowed env (req_feed request) = (rf, ev0)" and nz: "rf \<noteq> NONE"
    and prov: "up7_createVirtCirc env s rf (Some (vcEnd request)) = (LDM7_OK, s1, ev1)"
    and sub: "umm_subscribe env rf = (st2, rep)"
    and fail: "st2 \<noteq> LDM7_OK \<or> pim_openForReading env (req_feed request) \<noteq> LDM7_OK"
  shows "\<exists>cid tr.
           circuitId s1 = Some cid
         \<and> up7_subscribe env s request rep0 =
             (st2 = LDM7_NOENT,
              if st2 = LDM7_NOENT then rep0\<lparr>status := LDM7_NOENT\<rparr> else rep0,
              s\<lparr>circuitId := None\<rparr>, tr)
         \<and> (circuitId s = None \<longrightarrow> s\<lparr>circuitId := None\<rparr> = s)
         \<and> tr = ev0 @ ev1
                @ (if st2 = LDM7_NOENT then
                     [Umm_subscribe rf, Log LOG_NOTICE ''Allowed feed is not multicasted'']
                   else if st2 \<noteq> LDM7_OK then
                     [Umm_subscribe rf, LogAdd ''Could not subscribe host to feed'']
                   else
                     [Umm_subscribe rf, Pim_openForReading (req_feed request),
                      LogAdd ''Could not open product->index map'',
                      Umm_unsubscribe rf (cidrAddr_getAddr (fmtpAddr (SubscriptionReply_u rep)))])
                @ oess_remove (remove_child env) (wrkGrpName s) cid"
proof -
  from prov obtain cid where s1: "s1 = s\<lparr>circuitId := Some cid\<rparr>"
    by (auto simp: up7_createVirtCirc_def oess_provision_def Let_def
        split: option.splits prod.splits if_splits)
  show ?thesis
  proof (cases "st2 = LDM7_OK")
    case False
    with red nz prov sub s1 show ?thesis
      by (simp add: up7_subscribe_def up7_destroyVirtCirc_def)
  next
    case True
    with fail have "pim_openForReading env (req_feed request) \<noteq> LDM7_OK" by simp
    with True red nz prov sub s1 show ?thesis
      by (simp add: up7_subscribe_def up7_destroyVirtCirc_def up7_openProdIndexMap_def Let_def)
  qed
qed

theorem subscribe_failure_undoes_in_reverse_witness:
  "up7_subscribe env_nopim fresh1 request1 reply1 =
     (False, reply1, fresh1,
      provision_events
      @ [Umm_subscribe 1, Pim_openForReading 1, LogAdd ''Could not open product->index map'',
         Umm_unsubscribe 1 0xC0A80801,
         ChildCmd_execvp [''python'', ''remove.py'', ''wg'', ''circuit17''], ChildCmd_reap])"
proof -
  have r: "up7_reduceToAllowed env_nopim (req_feed request1) = (1, [])"
    using reduce_request1 by (simp add: up7_reduceToAllowed_def env_nopim_def)
  have nz: "(1 :: feedtypet) \<noteq> NONE" by (simp add: NONE_def)
  have p: "up7_createVirtCirc env_nopim fresh1 1 (Some (vcEnd request1)) =
           (LDM7_OK, fresh1\<lparr>circuitId := Some ''circuit17''\<rparr>, provision_events)"
    by (rule provision_request1)
       (simp_all add: env_nopim_def env1_def fresh1_def)
  have u: "umm_subscribe env_nopim 1 = (LDM7_OK, reply1)"
    by (simp add: env_nopim_def env1_def)
  have f: "LDM7_OK \<noteq> LDM7_OK \<or> pim_openForReading env_nopim (req_feed request1) \<noteq> LDM7_OK"
    by (simp add: env_nopim_def)
  have n: "circuitId fresh1 = None" by (simp add: fresh1_def up7_initial_def)
  have rm: "oess_remove (remove_child env_nopim) (wrkGrpName fresh1) ''circuit17'' =
              [ChildCmd_execvp [''python'', ''remove.py'', ''wg'', ''circuit17''], ChildCmd_reap]"
    by (simp add: oess_remove_def strncmp_eq_def env_nopim_def env1_def good_child_def
        python_def fresh1_def)
  have a: "cidrAddr_getAddr (fmtpAddr (SubscriptionReply_u reply1)) = 0xC0A80801"
    by (simp add: cidrAddr_getAddr_def reply1_def)
  show ?thesis
    using subscribe_failure_undoes_in_reverse [OF r nz p u f, of reply1] n rm a
    by (simp add: request1_def)
qed

text \<open>
  C6 as it is stated fails where the session already held a circuit identifier: after a
  subscription that fails at the multicast manager, the identifier \<^verbatim>\<open>circuit9\<close> that
  the state held before the request is gone, so the state is not the one before the
  request.
\<close>

theorem subscribe_failure_state_counterexample:
  "fst (up7_createVirtCirc env_nosender resub1 1 (Some (vcEnd request1))) = LDM7_OK
   \<and> fst (umm_subscribe env_nosender 1) = LDM7_SYSTEM
   \<and> circuitId resub1 = Some ''circuit9''
   \<and> circuitId (fst (snd (snd (up7_subscribe env_nosender resub1 request1 reply1)))) = None
   \<and> fst (snd (snd (up7_subscribe env_nosender resub1 request1 reply1))) \<noteq> resub1"
proof -
  have p: "up7_createVirtCirc env_nosender resub1 1 (Some (vcEnd request1)) =
           (LDM7_OK, resub1\<lparr>circuitId := Some ''circuit17''\<rparr>, provision_events)"
    by (rule provision_request1)
       (simp_all add: env_nosender_def env1_def resub1_def fresh1_def)
  have c: "circuitId resub1 = Some ''circuit9''"
    by (simp add: resub1_def)
  have n: "resub1\<lparr>circuitId := None\<rparr> \<noteq> resub1"
  proof
    assume "resub1\<lparr>circuitId := None\<rparr> = resub1"
    then have "circuitId (resub1\<lparr>circuitId := None\<rparr>) = circuitId resub1" by simp
    with c show False by simp
  qed
  show ?thesis
    using n by (simp add: subscribe_resub1 p c) (simp add: env_nosender_def)
qed

subsection \<open>The order of the calls for one product\<close>

lemma tryMulticast_head:
  "mls_tryMulticast env t = (st, d, ev) \<Longrightarrow> \<exists>ev'. ev = Pq_sequenceLock # ev'"
  by (auto simp: mls_tryMulticast_def split: locked.splits prod.splits if_splits)

lemma turn_om_put:
  assumes "mls_tryMulticast env t = (st, d, pre @ Om_put i off # post)"
  shows "suffix [Fmtp_getNextProdIndex i] pre"
proof (cases "lock t")
  case (NoCall n)
  with assms show ?thesis
    by (auto simp: mls_tryMulticast_def Cons_eq_append_conv append_eq_Cons_conv split: if_splits)
next
  case (Locked p x offset r)
  with assms show ?thesis
    by (auto simp: mls_tryMulticast_def mls_multicastProduct_def Let_def
        Cons_eq_append_conv append_eq_Cons_conv suffix_def split: if_splits)
qed

lemma turn_pim_put:
  assumes "mls_tryMulticast env t = (st, d, pre @ Pim_put i s # post)"
  shows "\<exists>off. suffix [Fmtp_getNextProdIndex i, Om_put i off] pre"
proof (cases "lock t")
  case (NoCall n)
  with assms show ?thesis
    by (auto simp: mls_tryMulticast_def Cons_eq_append_conv append_eq_Cons_conv split: if_splits)
next
  case (Locked p x offset r)
  with assms show ?thesis
    by (auto simp: mls_tryMulticast_def mls_multicastProduct_def Let_def
        Cons_eq_append_conv append_eq_Cons_conv suffix_def split: if_splits)
qed

lemma turn_send:
  assumes "mls_tryMulticast env t = (st, d, pre @ Fmtp_send i s x # post)"
  shows "(\<exists>off. suffix [Fmtp_getNextProdIndex i, Om_put i off, Pim_put i s] pre)
         \<and> (\<forall>j s'. Pim_put j s' \<notin> set post)"
proof (cases "lock t")
  case (NoCall n)
  with assms show ?thesis
    by (auto simp: mls_tryMulticast_def Cons_eq_append_conv append_eq_Cons_conv split: if_splits)
next
  case (Locked p x' offset r)
  with assms show ?thesis
    by (auto simp: mls_tryMulticast_def mls_multicastProduct_def Let_def
        Cons_eq_append_conv append_eq_Cons_conv suffix_def split: if_splits)
qed

lemma multicast_loop_head:
  "multicast_loop env ts = (st, ev) \<Longrightarrow> ev = [] \<or> (\<exists>ev'. ev = Pq_sequenceLock # ev')"
proof (cases ts)
  case Nil
  then show "multicast_loop env ts = (st, ev) \<Longrightarrow> ?thesis" by simp
next
  case (Cons t ts')
  assume "multicast_loop env ts = (st, ev)"
  with Cons show ?thesis
    by (auto split: prod.splits if_splits dest: tryMulticast_head)
qed

lemma takeWhile_before_lock:
  assumes "ys = [] \<or> (\<exists>ys'. ys = Pq_sequenceLock # ys')"
  shows "set (takeWhile (\<lambda>e. e \<noteq> Pq_sequenceLock) (xs @ ys)) \<subseteq> set xs"
  using assms by (induction xs) auto

lemma loop_split:
  assumes "multicast_loop env (t # ts) = (st, pre @ e # post)" and "e \<noteq> Pq_sequenceLock"
  shows "(\<exists>st1 d us. mls_tryMulticast env t = (st1, d, pre @ e # us)
            \<and> set (takeWhile (\<lambda>e. e \<noteq> Pq_sequenceLock) post) \<subseteq> set us)
         \<or> (\<exists>st2 xs us. multicast_loop env ts = (st2, us @ e # post) \<and> pre = xs @ us)"
proof -
  obtain st1 d ev where t: "mls_tryMulticast env t = (st1, d, ev)"
    by (cases "mls_tryMulticast env t")
  obtain st2 ev2 where l: "multicast_loop env ts = (st2, ev2)"
    by (cases "multicast_loop env ts")
  have hd2: "ev2 = [] \<or> (\<exists>ys'. ev2 = Pq_sequenceLock # ys')"
    using multicast_loop_head [OF l] .
  show ?thesis
  proof (cases "st1 = 0 \<and> \<not> d")
    case False
    with assms(1) t have "mls_tryMulticast env t = (st1, d, pre @ e # post)" by auto
    moreover have "set (takeWhile (\<lambda>e. e \<noteq> Pq_sequenceLock) post) \<subseteq> set post"
      by (auto dest: set_takeWhileD)
    ultimately show ?thesis by blast
  next
    case True
    with assms(1) t l have eq: "ev @ ev2 = pre @ e # post" by auto
    then obtain us where
      "(ev = pre @ us \<and> us @ ev2 = e # post) \<or> (ev @ us = pre \<and> ev2 = us @ e # post)"
      unfolding append_eq_append_conv2 by blast
    then show ?thesis
    proof
      assume a: "ev = pre @ us \<and> us @ ev2 = e # post"
      show ?thesis
      proof (cases us)
        case Nil
        with a have "ev2 = e # post" by simp
        with hd2 assms(2) show ?thesis by auto
      next
        case (Cons u us')
        with a have e: "ev = pre @ e # us'" and p: "post = us' @ ev2" by auto
        from t e have "mls_tryMulticast env t = (st1, d, pre @ e # us')" by simp
        moreover from takeWhile_before_lock [OF hd2, of us'] p
        have "set (takeWhile (\<lambda>e. e \<noteq> Pq_sequenceLock) post) \<subseteq> set us'" by simp
        ultimately show ?thesis by blast
      qed
    next
      assume b: "ev @ us = pre \<and> ev2 = us @ e # post"
      with l have "multicast_loop env ts = (st2, us @ e # post)" and "pre = ev @ us" by simp_all
      then show ?thesis by blast
    qed
  qed
qed

lemma loop_prefix_property:
  assumes turn: "\<And>t st d pre post. mls_tryMulticast env t = (st, d, pre @ e # post) \<Longrightarrow> Q pre"
    and app: "\<And>xs ys. Q ys \<Longrightarrow> Q (xs @ ys)"
    and ne: "e \<noteq> Pq_sequenceLock"
    and run: "multicast_loop env ts = (st, pre @ e # post)"
  shows "Q pre"
  using run
proof (induction ts arbitrary: st pre)
  case Nil
  then show ?case by simp
next
  case (Cons t ts)
  from loop_split [OF Cons.prems ne] show ?case
  proof
    assume "\<exists>st1 d us. mls_tryMulticast env t = (st1, d, pre @ e # us)
            \<and> set (takeWhile (\<lambda>e. e \<noteq> Pq_sequenceLock) post) \<subseteq> set us"
    then show ?thesis using turn by blast
  next
    assume "\<exists>st2 xs us. multicast_loop env ts = (st2, us @ e # post) \<and> pre = xs @ us"
    then obtain st2 xs us where l: "multicast_loop env ts = (st2, us @ e # post)"
      and p: "pre = xs @ us" by blast
    from Cons.IH [OF l] have "Q us" .
    with app p show ?thesis by simp
  qed
qed

lemma loop_after_send:
  assumes "multicast_loop env ts = (st, pre @ Fmtp_send i s x # post)"
  shows "Pim_put j s' \<notin> set (takeWhile (\<lambda>e. e \<noteq> Pq_sequenceLock) post)"
  using assms
proof (induction ts arbitrary: st pre)
  case Nil
  then show ?case by simp
next
  case (Cons t ts)
  have ne: "Fmtp_send i s x \<noteq> Pq_sequenceLock" by simp
  from loop_split [OF Cons.prems ne] show ?case
  proof
    assume "\<exists>st1 d us. mls_tryMulticast env t = (st1, d, pre @ Fmtp_send i s x # us)
            \<and> set (takeWhile (\<lambda>e. e \<noteq> Pq_sequenceLock) post) \<subseteq> set us"
    then obtain st1 d us where t: "mls_tryMulticast env t = (st1, d, pre @ Fmtp_send i s x # us)"
      and sub: "set (takeWhile (\<lambda>e. e \<noteq> Pq_sequenceLock) post) \<subseteq> set us" by blast
    from turn_send [OF t] have "Pim_put j s' \<notin> set us" by blast
    with sub show ?thesis by blast
  next
    assume "\<exists>st2 xs us. multicast_loop env ts = (st2, us @ Fmtp_send i s x # post) \<and> pre = xs @ us"
    then obtain st2 us where "multicast_loop env ts = (st2, us @ Fmtp_send i s x # post)" by blast
    from Cons.IH [OF this] show ?thesis .
  qed
qed

text \<open>
  C1. In the events of the dispatch loop the calls for a product come in one order.
  The events before an \<^verbatim>\<open>om_put\<close> end with the \<^verbatim>\<open>fmtpSender_getNextProdIndex\<close> that
  returned its index; those before a \<^verbatim>\<open>pim_put\<close> end with these two, with the same
  index; and those before an \<^verbatim>\<open>fmtpSender_send\<close> end with these three, with the same
  index and with the signature that was put into the product-index map. After a send no
  \<^verbatim>\<open>pim_put\<close> happens before the loop goes on to the next \<^verbatim>\<open>pq_sequenceLock\<close>, that
  is, while the product is handled.
\<close>

theorem send_follows_index_map_insertion:
  assumes "multicast_loop env ts = (st, pre @ e # post)"
  shows "(\<forall>i off. e = Om_put i off \<longrightarrow> suffix [Fmtp_getNextProdIndex i] pre)
       \<and> (\<forall>i s. e = Pim_put i s \<longrightarrow>
            (\<exists>off. suffix [Fmtp_getNextProdIndex i, Om_put i off] pre))
       \<and> (\<forall>i s x. e = Fmtp_send i s x \<longrightarrow>
            (\<exists>off. suffix [Fmtp_getNextProdIndex i, Om_put i off, Pim_put i s] pre)
            \<and> (\<forall>j s'. Pim_put j s' \<notin> set (takeWhile (\<lambda>e. e \<noteq> Pq_sequenceLock) post)))"
proof (intro conjI allI impI)
  fix i off
  assume e: "e = Om_put i off"
  show "suffix [Fmtp_getNextProdIndex i] pre"
  proof (rule loop_prefix_property [where e = "Om_put i off" and env = env])
    show "multicast_loop env ts = (st, pre @ Om_put i off # post)" using assms e by simp
  qed (auto intro: turn_om_put suffix_appendI)
next
  fix i s
  assume e: "e = Pim_put i s"
  show "\<exists>off. suffix [Fmtp_getNextProdIndex i, Om_put i off] pre"
  proof (rule loop_prefix_property [where e = "Pim_put i s" and env = env])
    show "multicast_loop env ts = (st, pre @ Pim_put i s # post)" using assms e by simp
  qed (auto intro: turn_pim_put suffix_appendI)
next
  fix i s x
  assume e: "e = Fmtp_send i s x"
  show "\<exists>off. suffix [Fmtp_getNextProdIndex i, Om_put i off, Pim_put i s] pre"
  proof (rule loop_prefix_property [where e = "Fmtp_send i s x" and env = env])
    show "multicast_loop env ts = (st, pre @ Fmtp_send i s x # post)" using assms e by simp
    show "\<And>t st d pre post. mls_tryMulticast env t = (st, d, pre @ Fmtp_send i s x # post)
            \<Longrightarrow> \<exists>off. suffix [Fmtp_getNextProdIndex i, Om_put i off, Pim_put i s] pre"
      using turn_send by blast
  qed (auto intro: suffix_appendI)
next
  fix i s x j s'
  assume e: "e = Fmtp_send i s x"
  with assms have "multicast_loop env ts = (st, pre @ Fmtp_send i s x # post)" by simp
  then show "Pim_put j s' \<notin> set (takeWhile (\<lambda>e. e \<noteq> Pq_sequenceLock) post)"
    by (rule loop_after_send)
qed

theorem send_follows_index_map_insertion_witness:
  "multicast_loop sender1 turns1 =
     (0, [Pq_sequenceLock, Fmtp_getNextProdIndex 0, Om_put 0 4096, Pim_put 0 (sig_of 0),
          Fmtp_send 0 (sig_of 0) [0xA0],
          Pq_sequenceLock, BlockTermSigs, Pq_suspendAndUnblock 30, UnblockTermSigs,
          Pq_sequenceLock, Fmtp_getNextProdIndex 1, Om_put 1 8192, Pim_put 1 (sig_of 1)]
         @ Fmtp_send 1 (sig_of 1) [0xA1] # [])
   \<and> (\<exists>off. suffix [Fmtp_getNextProdIndex 1, Om_put 1 off, Pim_put 1 (sig_of 1)]
          [Pq_sequenceLock, Fmtp_getNextProdIndex 0, Om_put 0 4096, Pim_put 0 (sig_of 0),
           Fmtp_send 0 (sig_of 0) [0xA0],
           Pq_sequenceLock, BlockTermSigs, Pq_suspendAndUnblock 30, UnblockTermSigs,
           Pq_sequenceLock, Fmtp_getNextProdIndex 1, Om_put 1 8192, Pim_put 1 (sig_of 1)])"
proof -
  have h: "multicast_loop sender1 turns1 =
     (0, [Pq_sequenceLock, Fmtp_getNextProdIndex 0, Om_put 0 4096, Pim_put 0 (sig_of 0),
          Fmtp_send 0 (sig_of 0) [0xA0],
          Pq_sequenceLock, BlockTermSigs, Pq_suspendAndUnblock 30, UnblockTermSigs,
          Pq_sequenceLock, Fmtp_getNextProdIndex 1, Om_put 1 8192, Pim_put 1 (sig_of 1)]
         @ Fmtp_send 1 (sig_of 1) [0xA1] # [])"
    using loop_turns1 by simp
  from send_follows_index_map_insertion [OF h] h show ?thesis by blast
qed

subsection \<open>The line with the two ports\<close>

lemma digit_char_digit: "d < 10 \<Longrightarrow> digit_char d \<in> set ''0123456789''"
proof -
  assume "d < 10"
  then have "d < length ''0123456789''" by simp
  then have "''0123456789'' ! d \<in> set ''0123456789''" by (rule nth_mem)
  then show ?thesis by (simp only: digit_char_def)
qed

lemma dec_digits: "dec n \<noteq> [] \<and> set (dec n) \<subseteq> set ''0123456789''"
proof (induction n rule: dec.induct)
  case (1 n)
  show ?case
  proof (cases "n < 10")
    case True
    then show ?thesis
      using digit_char_digit [of n] by (simp add: dec.simps [of n])
  next
    case False
    have "n mod 10 < 10" by simp
    from digit_char_digit [OF this] "1" [OF False] False show ?thesis
      by (simp add: dec.simps [of n])
  qed
qed

lemma of_char_digit_char: "d < 10 \<Longrightarrow> of_char (digit_char d) = 48 + d"
proof -
  assume "d < 10"
  then have "d \<in> {0, 1, 2, 3, 4, 5, 6, 7, 8, 9}" by auto
  then show ?thesis by (auto simp: digit_char_def)
qed

text \<open>The digits of \<open>dec n\<close>, read as a decimal number, give \<open>n\<close>.\<close>

lemma dec_value: "foldl (\<lambda>a c. 10 * a + (of_char c - 48)) 0 (dec n) = n"
proof (induction n rule: dec.induct)
  case (1 n)
  show ?case
  proof (cases "n < 10")
    case True
    then show ?thesis
      by (simp add: dec.simps [of n] of_char_digit_char)
  next
    case False
    have "n mod 10 < 10" by simp
    from of_char_digit_char [OF this] "1" [OF False] False show ?thesis
      by (simp add: dec.simps [of n])
  qed
qed

lemma printed_append [simp]: "printed (xs @ ys) = printed xs @ printed ys"
  by (simp add: printed_def)

lemma printed_Nil [simp]: "printed [] = []"
  by (simp add: printed_def)

lemma printed_Cons_Printf [simp]:
  "printed (Printf l ok # xs) = (if ok then l # printed xs else printed xs)"
  by (cases ok) (simp_all add: printed_def)

lemma printed_Cons_other [simp]:
  "printed (Log lv m # xs) = printed xs"
  "printed (LogAdd m # xs) = printed xs"
  "printed (Call c # xs) = printed xs"
  "printed (BlockTermSigs # xs) = printed xs"
  "printed (UnblockTermSigs # xs) = printed xs"
  "printed (Pq_sequenceLock # xs) = printed xs"
  "printed (Pq_suspendAndUnblock n # xs) = printed xs"
  "printed (Fmtp_getNextProdIndex i # xs) = printed xs"
  "printed (Om_put i off # xs) = printed xs"
  "printed (Om_get i # xs) = printed xs"
  "printed (Pim_put i sg # xs) = printed xs"
  "printed (Fmtp_send i sg x # xs) = printed xs"
  by (simp_all add: printed_def)

lemma constants_nonzero:
  assumes "constants_ok env"
  shows "ldm7 env LDM7_SYSTEM \<noteq> 0" and "ldm7 env LDM7_OK = 0"
    and "ldm7 env LDM7_INVAL \<noteq> 0" and "ldm7 env LDM7_MCAST \<noteq> 0"
    and "ldm7 env LDM7_PQ \<noteq> 0"
proof -
  from assms have i: "inj (ldm7 env)" and z: "ldm7 env LDM7_OK = 0"
    by (simp_all add: constants_ok_def)
  show "ldm7 env LDM7_OK = 0" by (rule z)
  show "ldm7 env LDM7_SYSTEM \<noteq> 0" "ldm7 env LDM7_INVAL \<noteq> 0"
    "ldm7 env LDM7_MCAST \<noteq> 0" "ldm7 env LDM7_PQ \<noteq> 0"
    using injD [OF i, of _ LDM7_OK] z by auto
qed

lemma startAuthorization_returns:
  assumes "constants_ok env" and "startAuthorization env = Returned st ev"
  shows "(st = 0) = (inAddrPool_new_ok env \<and> auth_new_ok env \<and> mldmSrvr_new_ok env
                      \<and> pthread_create env = 0)"
    and "printed ev = []" and "Pq_sequenceLock \<notin> set ev"
  using assms(2) constants_nonzero [OF assms(1)]
  by (auto simp: startAuthorization_def Let_def split: if_splits)

lemma startAuthorization_not_Aborted: "startAuthorization env \<noteq> Aborted ev"
  by (simp add: startAuthorization_def Let_def)

lemma mls_getIpv4Addr_events:
  "mls_getIpv4Addr env a = (st, ev) \<Longrightarrow> printed ev = [] \<and> Pq_sequenceLock \<notin> set ev"
  by (auto simp: mls_getIpv4Addr_def Let_def split: if_splits)

lemma mls_getIpv4Addr_status:
  assumes "constants_ok env" and "mls_getIpv4Addr env a = (st, ev)"
  shows "(st = 0) = (getDottedDecimal env a = 0)"
  using assms(2) constants_nonzero [OF assms(1)]
  by (auto simp: mls_getIpv4Addr_def Let_def split: if_splits)

lemma mls_init_events:
  assumes "mls_init env i = (st, mi, ev)"
  shows "printed ev = []" and "Pq_sequenceLock \<notin> set ev"
    and "constants_ok env \<Longrightarrow>
           (st = 0) = fmtp_server_started env i
           \<and> (st = 0 \<longrightarrow> port (server mi) = snd (fmtpSender_create env))"
proof -
  obtain st1 ev1 where a: "mls_getIpv4Addr env (inetId (server i)) = (st1, ev1)"
    by (cases "mls_getIpv4Addr env (inetId (server i))")
  obtain st2 ev2 where b: "mls_getIpv4Addr env (inetId (group i)) = (st2, ev2)"
    by (cases "mls_getIpv4Addr env (inetId (group i))")
  note e = mls_getIpv4Addr_events [OF a] mls_getIpv4Addr_events [OF b]
  from assms a b e show "printed ev = []"
    by (auto simp: mls_init_def Let_def split: if_splits)
  from assms a b e show "Pq_sequenceLock \<notin> set ev"
    by (auto simp: mls_init_def Let_def split: if_splits)
  assume ok: "constants_ok env"
  note g = mls_getIpv4Addr_status [OF ok a] mls_getIpv4Addr_status [OF ok b]
  from assms a b g constants_nonzero [OF ok] show
    "(st = 0) = fmtp_server_started env i
     \<and> (st = 0 \<longrightarrow> port (server mi) = snd (fmtpSender_create env))"
    by (auto simp: mls_init_def fmtp_server_started_def Let_def split: if_splits)
qed

lemma multicast_loop_printed: "multicast_loop env ts = (st, ev) \<Longrightarrow> printed ev = []"
proof (induction ts arbitrary: st ev)
  case Nil
  then show ?case by simp
next
  case (Cons t ts)
  obtain st1 d ev1 where t: "mls_tryMulticast env t = (st1, d, ev1)"
    by (cases "mls_tryMulticast env t")
  then have p: "printed ev1 = []"
    by (auto simp: mls_tryMulticast_def mls_multicastProduct_def Let_def
        split: locked.splits if_splits)
  obtain st2 ev2 where l: "multicast_loop env ts = (st2, ev2)"
    by (cases "multicast_loop env ts")
  from Cons.IH [OF l] Cons.prems t l p show ?case
    by (auto split: if_splits)
qed

lemma mls_startMulticasting_printed:
  "mls_startMulticasting env = (st, ev) \<Longrightarrow> printed ev = []"
  by (auto simp: mls_startMulticasting_def split: if_splits prod.splits
      dest: multicast_loop_printed)

lemma stopAuthorization_printed [simp]: "printed (stopAuthorization env) = []"
  by (simp add: stopAuthorization_def)

lemma stopAuthorization_no_lock [simp]: "Pq_sequenceLock \<notin> set (stopAuthorization env)"
  by (simp add: stopAuthorization_def)

lemma mls_destroy_printed:
  "mls_destroy env = (st, ev) \<Longrightarrow> printed ev = [] \<and> Pq_sequenceLock \<notin> set ev"
  by (auto simp: mls_destroy_def Let_def)

lemma unique_Printf_split:
  assumes "xs @ Printf l True # ys = pre @ Printf l' True # post"
    and "printed xs = []" and "printed ys = []"
  shows "pre = xs"
proof -
  from assms(1) obtain us where
    "(xs = pre @ us \<and> us @ Printf l True # ys = Printf l' True # post)
     \<or> (xs @ us = pre \<and> Printf l True # ys = us @ Printf l' True # post)"
    by (auto simp: append_eq_append_conv2)
  then show ?thesis
  proof
    assume a: "xs = pre @ us \<and> us @ Printf l True # ys = Printf l' True # post"
    show ?thesis
    proof (cases us)
      case Nil
      with a show ?thesis by simp
    next
      case (Cons u us')
      with a have "xs = pre @ Printf l' True # us'" by simp
      with assms(2) show ?thesis by simp
    qed
  next
    assume b: "xs @ us = pre \<and> Printf l True # ys = us @ Printf l' True # post"
    show ?thesis
    proof (cases us)
      case Nil
      with b show ?thesis by simp
    next
      case (Cons u us')
      with b have "ys = us' @ Printf l' True # post" by simp
      with assms(3) show ?thesis by simp
    qed
  qed
qed

text \<open>
  What \<^verbatim>\<open>mls_execute\<close> writes to the standard output where it returns or aborts, the
  values of the enumerators being as the code relies on. If both servers have been
  started and \<^verbatim>\<open>printf\<close> succeeds, it is exactly one line: the port of the FMTP TCP
  server in decimal, a space, the port of the command-server in decimal and a newline.
  Otherwise it is nothing. The line is written before the first \<^verbatim>\<open>pq_sequenceLock\<close> of
  the dispatch loop, and the loop is not entered unless the line has been written.
\<close>

lemma port_line_printed_once:
  assumes ok: "constants_ok env"
    and run: "mls_execute env i = Returned st tr \<or> mls_execute env i = Aborted tr"
  shows "printed tr =
           (if command_server_started env \<and> fmtp_server_started env i \<and> printf_ok env
            then [dec (unat (snd (fmtpSender_create env))) @ '' ''
                  @ dec (unat (mldmSrvr_getPort env)) @ [newline]]
            else [])
       \<and> (\<forall>pre l post. tr = pre @ Printf l True # post \<longrightarrow> Pq_sequenceLock \<notin> set pre)
       \<and> (Pq_sequenceLock \<in> set tr \<longrightarrow> printed tr \<noteq> [])"
proof -
  from run obtain st1 ev1 where sa: "startAuthorization env = Returned st1 ev1"
    by (cases "startAuthorization env")
       (auto simp: mls_execute_def Let_def startAuthorization_not_Aborted)
  note sa_facts = startAuthorization_returns [OF ok sa]
  obtain st2 mi ev2 where ini: "mls_init env i = (st2, mi, ev2)"
    by (cases "mls_init env i")
  note ini_facts = mls_init_events(1,2) [OF ini] mls_init_events(3) [OF ini ok]
  obtain st3 ev3 where sm: "mls_startMulticasting env = (st3, ev3)"
    by (cases "mls_startMulticasting env")
  obtain st4 ev4 where de: "mls_destroy env = (st4, ev4)"
    by (cases "mls_destroy env")
  note rest = mls_startMulticasting_printed [OF sm] mls_destroy_printed [OF de]
  have c1: "printed tr =
           (if command_server_started env \<and> fmtp_server_started env i \<and> printf_ok env
            then [dec (unat (snd (fmtpSender_create env))) @ '' ''
                  @ dec (unat (mldmSrvr_getPort env)) @ [newline]]
            else [])"
    using run sa sa_facts(1,2) ini ini_facts(1,3) sm de rest
    by (auto simp: mls_execute_def command_server_started_def port_line_def Let_def
        split: if_splits)
  let ?xs = "[Call ''mls_blockPqSignals'', BlockTermSigs] @ ev1 @ ev2 @ [UnblockTermSigs]"
  have pre_events: "Pq_sequenceLock \<notin> set ?xs"
    using sa_facts(3) ini_facts(2) by simp
  have c2: "\<forall>pre l post. tr = pre @ Printf l True # post \<longrightarrow> Pq_sequenceLock \<notin> set pre"
  proof (intro allI impI)
    fix pre l post
    assume tr: "tr = pre @ Printf l True # post"
    then have ne: "printed tr \<noteq> []" by simp
    have "\<exists>l' ys. tr = ?xs @ Printf l' True # ys \<and> printed ys = []"
      using ne run sa sa_facts(1,2) ini ini_facts(1) sm de rest
      by (auto simp: mls_execute_def Let_def split: if_splits)
    then obtain l' ys where sh: "tr = ?xs @ Printf l' True # ys" and ys: "printed ys = []"
      by blast
    have "printed ?xs = []"
      using sa_facts(2) ini_facts(1) by simp
    with unique_Printf_split [of ?xs l' ys pre l post] sh tr ys have "pre = ?xs"
      by simp
    with pre_events show "Pq_sequenceLock \<notin> set pre" by simp
  qed
  have c3: "Pq_sequenceLock \<in> set tr \<longrightarrow> printed tr \<noteq> []"
    using run sa sa_facts(2,3) ini ini_facts(1,2) sm de rest
    by (auto simp: mls_execute_def Let_def split: if_splits)
  from c1 c2 c3 show ?thesis by blast
qed

lemma port_line_printed_once_sender1:
  "\<exists>tr. mls_execute sender1 info1 = Returned 0 tr
        \<and> printed tr = [''38801 40000'' @ [newline]]"
proof -
  from mls_execute_sender1 obtain tr where r: "mls_execute sender1 info1 = Returned 0 tr" ..
  then have r': "mls_execute sender1 info1 = Returned 0 tr \<or> mls_execute sender1 info1 = Aborted tr"
    by simp
  have b: "command_server_started sender1" "fmtp_server_started sender1 info1"
    "printf_ok sender1"
    by (simp_all add: command_server_started_def fmtp_server_started_def sender1_def)
  have f: "fmtpSender_create sender1 = (0, 38801)" "mldmSrvr_getPort sender1 = 40000"
    by (simp_all add: sender1_def)
  from port_line_printed_once [OF constants_ok_sender1 r'] b f port_line_sender1
  have "printed tr = [''38801 40000'' @ [newline]]" by (simp add: port_line_def)
  with r show ?thesis by blast
qed

text \<open>
  Where \<^verbatim>\<open>inAddrPool_new\<close> succeeds and \<^verbatim>\<open>auth_new\<close> fails, \<^verbatim>\<open>startAuthorization\<close> logs
  a message and assigns nothing to \<^verbatim>\<open>status\<close>, which it then tests and returns.
\<close>

lemma startAuthorization_unset_status:
  "inAddrPool_new_ok env \<Longrightarrow> \<not> auth_new_ok env \<Longrightarrow> startAuthorization env = Undefined"
  by (simp add: startAuthorization_def)

text \<open>
  C7 fails on the code where \<^verbatim>\<open>auth_new\<close> fails. \<^verbatim>\<open>startAuthorization\<close> then returns a
  status that no statement has set. The value is indeterminate, so what \<^verbatim>\<open>mls_execute\<close>
  and \<^verbatim>\<open>main\<close> do after this failure of the initialisation is undefined: if the value
  read is zero, \<^verbatim>\<open>mls_execute\<close> goes on to \<^verbatim>\<open>mls_init\<close> and to \<^verbatim>\<open>printf\<close>, although no
  command-server was created. The other failures in \<^verbatim>\<open>startAuthorization\<close> set
  \<^verbatim>\<open>status\<close> to \<^verbatim>\<open>LDM7_SYSTEM\<close>. Here the command line is decoded as that of \<open>sender1\<close>
  is, to the multicast information \<open>info1\<close>.
\<close>

theorem auth_new_failure_leaves_status_unset:
  "inAddrPool_new_ok sender_noauth \<and> \<not> auth_new_ok sender_noauth
   \<and> mls_execute sender_noauth info1 = Undefined
   \<and> mls_decodeCommandLine sender_noauth = mls_decodeCommandLine sender1
   \<and> fst (mls_decodeCommandLine sender1) = 0
   \<and> fst (snd (mls_decodeCommandLine sender1)) = Some info1
   \<and> main sender_noauth = Undefined"
proof -
  have f: "inAddrPool_new_ok sender_noauth" "\<not> auth_new_ok sender_noauth"
    by (simp_all add: sender_noauth_def sender1_def)
  have e: "mls_execute sender_noauth info1 = Undefined"
    by (simp add: mls_execute_def startAuthorization_unset_status [OF f])
  have d: "mls_decodeCommandLine sender1 =
             (0, Some info1,
              \<lparr>s_feed = 0x80000000, s_serverIface = ''0.0.0.0'', s_serverPort = 0, s_ttl = 1,
               s_ifaceAddr = ''0.0.0.0'', s_retxTimeout = None, s_pqfname = None\<rparr>,
              [Call ''setQueuePath'', Call ''sa_free''])"
    by (simp add: mls_decodeCommandLine_def mls_decodeOperands_def mls_decodeGroupAddr_def
        mls_setMcastGroupInfo_def mls_setServiceAddr_def sender1_def info1_def ENOMEM_def)
  have d': "mls_decodeCommandLine sender_noauth = mls_decodeCommandLine sender1"
    by (simp add: mls_decodeCommandLine_def mls_decodeOperands_def mls_decodeGroupAddr_def
        mls_setMcastGroupInfo_def mls_setServiceAddr_def sender_noauth_def sender1_def)
  have m: "main sender_noauth = Undefined"
    by (simp add: main_def d' d e)
  from f e d d' m show ?thesis by simp
qed
subsection \<open>The exit status\<close>

lemma decodeOptions_status:
  "mls_decodeOptions env os st = (r, st', ev) \<Longrightarrow> r = 0 \<or> r = 1"
  by (induction env os st arbitrary: r st' ev rule: mls_decodeOptions.induct)
     (auto split: option.splits if_splits prod.splits)

lemma decodeCommandLine_status:
  assumes "mls_decodeCommandLine env = (r, mi, sets, ev)"
  shows "r = 0 \<or> r = 1 \<or> r = 2
         \<or> (\<exists>arg rest. operands env = arg # rest \<and> r = fst (sa_parse env arg))"
proof -
  obtain r0 st0 ev0 where o: "mls_decodeOptions env (options env)
             \<lparr>s_feed = EXP env, s_serverIface = ''0.0.0.0'', s_serverPort = 0, s_ttl = 1,
              s_ifaceAddr = ''0.0.0.0'', s_retxTimeout = None, s_pqfname = None\<rparr> = (r0, st0, ev0)"
    by (metis prod_cases3)
  from decodeOptions_status [OF o] have r0: "r0 = 0 \<or> r0 = 1" .
  from assms o r0 show ?thesis
    by (auto simp: mls_decodeCommandLine_def mls_decodeOperands_def mls_decodeGroupAddr_def
        mls_setMcastGroupInfo_def mls_setServiceAddr_def Let_def
        split: list.splits prod.splits option.splits if_splits)
qed

lemma main_exit_status_after_decoding:
  assumes "mls_decodeCommandLine env = (0, Some i, sets, ev)"
    and "mls_execute env i = Returned st tr"
  shows "\<exists>tr'. main env =
           Returned (if st = 0 then 0
                     else if st = ldm7 env LDM7_INVAL then 1
                     else if st = ldm7 env LDM7_PQ then 3
                     else if st = ldm7 env LDM7_MCAST then 4
                     else 2) tr'"
  using assms by (simp add: main_def)

text \<open>
  C8 fails on the code for a command line whose first operand \<^verbatim>\<open>sa_parse\<close> rejects as
  an invalid specification. \<^verbatim>\<open>mls_decodeGroupAddr\<close> replaces only \<^verbatim>\<open>ENOMEM\<close> (by 2)
  and passes every other status of \<^verbatim>\<open>sa_parse\<close> on, \<^verbatim>\<open>main\<close> returns the status of
  the decoding as it is, and so the exit status of the process is \<^verbatim>\<open>EINVAL\<close> (22),
  not 1; the usage message, which \<^verbatim>\<open>main\<close> logs for status 1, is not logged.
\<close>

theorem main_exit_status_of_invalid_group:
  "main sender_badgroup =
     Returned 22
       [Call ''log_init'', Call ''setQueuePath'', LogAdd ''Invalid multicast group specification'',
        LogAdd ''Could not decode command-line'', LogFlush LOG_ERROR, Call ''log_fini'']"
  by (simp add: main_def mls_decodeCommandLine_def mls_decodeOperands_def mls_decodeGroupAddr_def
      sender_badgroup_def sender1_def EINVAL_def ENOMEM_def)

lemma main_sender1: "\<exists>tr. main sender1 = Returned 0 tr"
proof -
  have d: "mls_decodeCommandLine sender1 =
             (0, Some info1,
              \<lparr>s_feed = 0x80000000, s_serverIface = ''0.0.0.0'', s_serverPort = 0, s_ttl = 1,
               s_ifaceAddr = ''0.0.0.0'', s_retxTimeout = None, s_pqfname = None\<rparr>,
              [Call ''setQueuePath'', Call ''sa_free''])"
    by (simp add: mls_decodeCommandLine_def mls_decodeOperands_def mls_decodeGroupAddr_def
        mls_setMcastGroupInfo_def mls_setServiceAddr_def sender1_def info1_def ENOMEM_def)
  from mls_execute_sender1 obtain tr where "mls_execute sender1 info1 = Returned 0 tr" ..
  with d show ?thesis by (simp add: main_def)
qed

subsection \<open>The queue of a subscribed session\<close>

text \<open>
  The requests go through the global product-queue as soon as the client-side transport
  exists. \<^verbatim>\<open>subscribe_7_svc\<close> creates the transport only after it has opened the queue,
  and no service routine closes the queue, so the queue is open whenever the transport
  exists.
\<close>

lemma up7_createVirtCirc_frame:
  "up7_createVirtCirc env s fd r = (st, s', ev) \<Longrightarrow> clnt s' = clnt s \<and> pq s' = pq s"
  by (auto simp: up7_createVirtCirc_def split: option.splits prod.splits if_splits)

lemma up7_destroyVirtCirc_frame:
  "up7_destroyVirtCirc env s = (s', ev) \<Longrightarrow> clnt s' = clnt s \<and> pq s' = pq s"
  by (auto simp: up7_destroyVirtCirc_def split: option.splits)

lemma up7_openProdIndexMap_frame:
  "up7_openProdIndexMap env s fd = (st, s', ev) \<Longrightarrow> clnt s' = clnt s \<and> pq s' = pq s"
  by (auto simp: up7_openProdIndexMap_def Let_def split: if_splits)

lemma up7_subscribe_frame:
  assumes "up7_subscribe env s request rep0 = (replySet, rep, s', ev)"
  shows "clnt s' = clnt s \<and> pq s' = pq s"
proof -
  obtain rf ev0 where a: "up7_reduceToAllowed env (req_feed request) = (rf, ev0)"
    by (cases "up7_reduceToAllowed env (req_feed request)")
  obtain st1 s1 ev1 where b: "up7_createVirtCirc env s rf (Some (vcEnd request)) = (st1, s1, ev1)"
    by (metis prod_cases3)
  obtain st2 rep2 where c: "umm_subscribe env rf = (st2, rep2)"
    by (cases "umm_subscribe env rf")
  obtain s2 ev2 where d: "up7_destroyVirtCirc env s1 = (s2, ev2)"
    by (cases "up7_destroyVirtCirc env s1")
  obtain st3 s3 ev3 where e: "up7_openProdIndexMap env s1 (req_feed request) = (st3, s3, ev3)"
    by (metis prod_cases3)
  obtain s4 ev4 where f: "up7_destroyVirtCirc env s3 = (s4, ev4)"
    by (cases "up7_destroyVirtCirc env s3")
  note fr = up7_createVirtCirc_frame [OF b] up7_destroyVirtCirc_frame [OF d]
    up7_openProdIndexMap_frame [OF e] up7_destroyVirtCirc_frame [OF f]
  from assms a b c d e f fr show ?thesis
    by (auto simp: up7_subscribe_def Let_def split: if_splits)
qed

lemma subscribe_keeps_queue_open:
  assumes "queue_open_if_subscribed s" and "subscribe_7_svc env s request = (rep, s', ev)"
  shows "queue_open_if_subscribed s'"
proof -
  obtain replySet res sb ev1 where
    a: "up7_subscribe env (s\<lparr>reply := False\<rparr>) request (result s) = (replySet, res, sb, ev1)"
    by (metis prod_cases4)
  from up7_subscribe_frame [OF a] have fr: "clnt sb = clnt s" "pq sb = pq s" by simp_all
  from assms a fr show ?thesis
    by (auto simp: subscribe_7_svc_def Let_def queue_open_if_subscribed_def
        up7_ensureProductQueueOpen_def up7_createClientTransport_def up7_destroyClient_def
        split: if_splits option.splits prod.splits)
qed

lemma request_product_keeps_queue_open:
  assumes "queue_open_if_subscribed s" and "request_product_7_svc env s iProd = Some (s', ev)"
  shows "queue_open_if_subscribed s'"
  using assms
  by (auto simp: request_product_7_svc_def queue_open_if_subscribed_def up7_destroyClient_def
      split: if_splits option.splits prod.splits)

lemma request_backlog_keeps_queue_open:
  assumes "queue_open_if_subscribed s" and "request_backlog_7_svc env s backlog = Some (s', ev)"
  shows "queue_open_if_subscribed s'"
  using assms
  by (auto simp: request_backlog_7_svc_def queue_open_if_subscribed_def up7_destroyClient_def
      up7_sendBacklog_def split: if_splits option.splits prod.splits)

lemma initial_queue_open_if_subscribed: "queue_open_if_subscribed up7_initial"
  by (simp add: queue_open_if_subscribed_def up7_initial_def)

end
